theory Spec2Isabelle
  imports Complex_Main "HOL-Library.Word" "HOL-Library.Sublist"
begin

unbundle bit_operations_syntax

section \<open>Strings\<close>

text \<open>
  A JavaScript string is a sequence of UTF-16 code units. Template texts of the source
  are ASCII; \<open>js\<close> turns such a literal into its code units.
\<close>

type_synonym jsstring = "16 word list"

definition js :: "string \<Rightarrow> jsstring" where
  "js s = map of_char s"

text \<open>\<open>Array.prototype.join\<close> on an array of strings.\<close>

fun join :: "jsstring \<Rightarrow> jsstring list \<Rightarrow> jsstring" where
  "join sep [] = []"
| "join sep [x] = x"
| "join sep (x # y # ys) = x @ sep @ join sep (y # ys)"

section \<open>Data model\<close>

text \<open>
  Modelled from the spec: the declarations of \<open>Ingredient\<close>, \<open>DietaryPreference\<close> and
  \<open>Recipe\<close> (module \<open>../types/index\<close>) are not among the sources; the fields are the
  ones the data model of the specification lists, in that order.
\<close>

record Ingredient =
  name :: jsstring
  quantity :: jsstring

type_synonym DietaryPreference = jsstring

record AdditionalInformation =
  tips :: jsstring
  variations :: jsstring
  servingSuggestions :: jsstring
  nutritionalInformation :: jsstring

record Recipe =
  name :: jsstring
  ingredients :: "Ingredient list"
  instructions :: "jsstring list"
  dietaryPreference :: "jsstring list"
  additionalInformation :: AdditionalInformation

section \<open>\<open>JSON.stringify\<close> on an ingredient list\<close>

text \<open>
  \<open>QuoteJSONString\<close> of ECMAScript: the quotation mark, the backslash and the control
  characters with a short form are escaped with a backslash, every other code unit below
  \<open>0x20\<close> and every surrogate without its partner is written \<open>\uXXXX\<close> in lower-case
  hexadecimal, and everything else (a surrogate pair included) is copied. The code unit
  \<open>0x5C\<close> is the backslash, \<open>0x22\<close> the quotation mark, \<open>0x62 0x74 0x6E 0x66 0x72\<close>
  the letters b, t, n, f, r and \<open>0x75\<close> the letter u.
\<close>

definition hex_digit :: "16 word \<Rightarrow> 16 word" where
  "hex_digit d = (if d < 10 then 0x30 + d else 0x61 + (d - 10))"

definition UnicodeEscape :: "16 word \<Rightarrow> jsstring" where
  "UnicodeEscape c =
     [0x5C, 0x75,
      hex_digit (drop_bit 12 c AND 15), hex_digit (drop_bit 8 c AND 15),
      hex_digit (drop_bit 4 c AND 15), hex_digit (c AND 15)]"

definition is_leading_surrogate :: "16 word \<Rightarrow> bool" where
  "is_leading_surrogate c \<longleftrightarrow> 0xD800 \<le> c \<and> c \<le> 0xDBFF"

definition is_trailing_surrogate :: "16 word \<Rightarrow> bool" where
  "is_trailing_surrogate c \<longleftrightarrow> 0xDC00 \<le> c \<and> c \<le> 0xDFFF"

definition quote_unit :: "16 word \<Rightarrow> jsstring" where
  "quote_unit c =
     (if c = 0x08 then [0x5C, 0x62]
      else if c = 0x09 then [0x5C, 0x74]
      else if c = 0x0A then [0x5C, 0x6E]
      else if c = 0x0C then [0x5C, 0x66]
      else if c = 0x0D then [0x5C, 0x72]
      else if c = 0x22 then [0x5C, 0x22]
      else if c = 0x5C then [0x5C, 0x5C]
      else if c < 0x20 \<or> is_leading_surrogate c \<or> is_trailing_surrogate c
        then UnicodeEscape c
      else [c])"

fun quote_units :: "jsstring \<Rightarrow> jsstring" where
  "quote_units [] = []"
| "quote_units [c] = quote_unit c"
| "quote_units (c # d # ds) =
     (if is_leading_surrogate c \<and> is_trailing_surrogate d
      then c # d # quote_units ds
      else quote_unit c @ quote_units (d # ds))"

definition QuoteJSONString :: "jsstring \<Rightarrow> jsstring" where
  "QuoteJSONString s = js ''\"'' @ quote_units s @ js ''\"''"

text \<open>
  An ingredient is serialised as an object with its two properties in the order of the
  declaration, an array as its elements separated by commas, without any white space.
\<close>

definition stringify_Ingredient :: "Ingredient \<Rightarrow> jsstring" where
  "stringify_Ingredient i =
     js ''{\"name\":'' @ QuoteJSONString (Ingredient.name i) @
     js '',\"quantity\":'' @ QuoteJSONString (quantity i) @ js ''}''"

definition JSON_stringify :: "Ingredient list \<Rightarrow> jsstring" where
  "JSON_stringify xs = js ''['' @ join (js '','') (map stringify_Ingredient xs) @ js '']''"

section \<open>Prompt builders\<close>

definition getRecipeGenerationPrompt ::
    "Ingredient list \<Rightarrow> DietaryPreference list \<Rightarrow> jsstring" where
  "getRecipeGenerationPrompt ingredientList dietaryPreferences =
     js ''\<newline>I have the following ingredients: '' @ JSON_stringify ingredientList @ js '' '' @
     (if length dietaryPreferences \<noteq> 0
      then js ''and dietary preferences: '' @ join (js '','') dietaryPreferences
      else []) @
     js (''. Please provide me with three different delicious recipes. The response should be in the following JSON format without any additional text or markdown:\<newline>'' @
       ''[\<newline>'' @
       ''    {\<newline>'' @
       ''        \"name\": \"Recipe Name\",\<newline>'' @
       ''        \"ingredients\": [\<newline>'' @
       ''            {\"name\": \"Ingredient 1\", \"quantity\": \"quantity and unit\"},\<newline>'' @
       ''            {\"name\": \"Ingredient 2\", \"quantity\": \"quantity and unit\"},\<newline>'' @
       ''            ...\<newline>'' @
       ''        ],\<newline>'' @
       ''        \"instructions\": [\<newline>'' @
       ''            \"Step 1\",\<newline>'' @
       ''            \"Step 2\",\<newline>'' @
       ''            ...\<newline>'' @
       ''        ],\<newline>'' @
       ''        \"dietaryPreference\": [\"Preference 1\", \"Preference 2\", ...],\<newline>'' @
       ''        \"additionalInformation\": {\<newline>'' @
       ''            \"tips\": \"Some cooking tips or advice.\",\<newline>'' @
       ''            \"variations\": \"Possible variations of the recipe.\",\<newline>'' @
       ''            \"servingSuggestions\": \"Suggestions for serving the dish.\",\<newline>'' @
       ''            \"nutritionalInformation\": \"Nutritional information about the recipe.\"\<newline>'' @
       ''        }\<newline>'' @
       ''    },\<newline>'' @
       ''    ...\<newline>'' @
       '']\<newline>'' @
       ''Please ensure the recipes are diverse and use the ingredients listed. The recipes should follow the dietary preferences provided. The instructions should be ordered but not include the step numbers.\<newline>'')"

definition getImageGenerationPrompt :: "jsstring \<Rightarrow> Ingredient list \<Rightarrow> jsstring" where
  "getImageGenerationPrompt recipeName ingredientList =
     (let allIngredients = join (js '', '') (map Ingredient.name ingredientList)
      in js ''Create an image of a delicious '' @ recipeName @
         js '' made of these ingredients: '' @ allIngredients @
         js ''. The image should be visually appealing and showcase the dish in an appetizing manner.'')"

definition getIngredientValidationPrompt :: "jsstring \<Rightarrow> jsstring" where
  "getIngredientValidationPrompt ingredientName =
     js ''You are a food ingredient validation assistant. Given this ingredient name: '' @
     ingredientName @
     js ('', you will respond with a JSON object in the following format:\<newline>'' @
       ''\<newline>'' @
       ''{\<newline>'' @
       ''  \"isValid\": true/false,\<newline>'' @
       ''  \"possibleVariations\": [\"variation1\", \"variation2\", \"variation3\"]\<newline>'' @
       ''}\<newline>'' @
       ''\<newline>'' @
       ''The \"isValid\" field should be true if the ingredient is commonly used in recipes and false otherwise. The \"possibleVariations\" field should be an array containing 2 or 3 variations or related ingredients to the provided ingredient name. If no variations or related ingredients are real and commonly used, return an empty array.\<newline>'' @
       ''\<newline>'' @
       ''Do not include any Markdown formatting or code blocks in your response. Return only valid JSON.'')"

section \<open>\<open>String.prototype.trim\<close>\<close>

text \<open>
  \<open>trim\<close> removes, at both ends, the white space and the line terminators of
  ECMAScript: TAB, LF, VT, FF, CR, SPACE, NO-BREAK SPACE, the other space separators of
  Unicode, LINE and PARAGRAPH SEPARATOR and the byte order mark. All of them are single
  code units.
\<close>

definition is_trim_space :: "16 word \<Rightarrow> bool" where
  "is_trim_space c \<longleftrightarrow>
     c = 0x09 \<or> c = 0x0A \<or> c = 0x0B \<or> c = 0x0C \<or> c = 0x0D \<or> c = 0x20 \<or>
     c = 0xA0 \<or> c = 0x1680 \<or> (0x2000 \<le> c \<and> c \<le> 0x200A) \<or>
     c = 0x2028 \<or> c = 0x2029 \<or> c = 0x202F \<or> c = 0x205F \<or> c = 0x3000 \<or> c = 0xFEFF"

definition trim :: "jsstring \<Rightarrow> jsstring" where
  "trim s = rev (dropWhile is_trim_space (rev (dropWhile is_trim_space s)))"

section \<open>\<open>JSON.parse\<close>\<close>

text \<open>
  The value \<open>JSON.parse\<close> builds. A number keeps the text of its literal (the engine
  turns it into the nearest double); an object keeps its members in the order of the text,
  duplicates included, and a property read takes the last member with that key, as the
  object built by the engine does.
\<close>

datatype json =
    JNull
  | JBool bool
  | JNumber jsstring
  | JString jsstring
  | JArray "json list"
  | JObject "(jsstring \<times> json) list"

definition get_property :: "(jsstring \<times> json) list \<Rightarrow> jsstring \<Rightarrow> json option" where
  "get_property members k = map_of (rev members) k"

subsection \<open>Tokens\<close>

datatype token =
    LBrace | RBrace | LBracket | RBracket | Colon | Comma
  | TNull | TTrue | TFalse
  | TNumber jsstring
  | TString jsstring

definition is_json_space :: "16 word \<Rightarrow> bool" where
  "is_json_space c \<longleftrightarrow> c = 0x09 \<or> c = 0x0A \<or> c = 0x0D \<or> c = 0x20"

definition is_digit :: "16 word \<Rightarrow> bool" where
  "is_digit c \<longleftrightarrow> 0x30 \<le> c \<and> c \<le> 0x39"

definition hex_value :: "16 word \<Rightarrow> 16 word option" where
  "hex_value c =
     (if 0x30 \<le> c \<and> c \<le> 0x39 then Some (c - 0x30)
      else if 0x41 \<le> c \<and> c \<le> 0x46 then Some (c - 0x41 + 10)
      else if 0x61 \<le> c \<and> c \<le> 0x66 then Some (c - 0x61 + 10)
      else None)"

definition hex4 :: "16 word \<Rightarrow> 16 word \<Rightarrow> 16 word \<Rightarrow> 16 word \<Rightarrow> 16 word option" where
  "hex4 a b c d =
     (case (hex_value a, hex_value b, hex_value c, hex_value d) of
        (Some x, Some y, Some z, Some w) \<Rightarrow>
          Some (push_bit 12 x OR push_bit 8 y OR push_bit 4 z OR w)
      | _ \<Rightarrow> None)"

text \<open>
  What follows a backslash inside a string literal: the code unit it stands for and the
  rest of the input.
\<close>

definition escape_unit :: "16 word \<Rightarrow> 16 word option" where
  "escape_unit e =
     (if e = 0x22 then Some 0x22
      else if e = 0x5C then Some 0x5C
      else if e = 0x2F then Some 0x2F
      else if e = 0x62 then Some 0x08
      else if e = 0x66 then Some 0x0C
      else if e = 0x6E then Some 0x0A
      else if e = 0x72 then Some 0x0D
      else if e = 0x74 then Some 0x09
      else None)"

fun unescape :: "jsstring \<Rightarrow> (16 word \<times> jsstring) option" where
  "unescape [] = None"
| "unescape (e # es) =
     (if e = 0x75 then
        (case es of
           h1 # h2 # h3 # h4 # rest \<Rightarrow> map_option (\<lambda>u. (u, rest)) (hex4 h1 h2 h3 h4)
         | _ \<Rightarrow> None)
      else map_option (\<lambda>u. (u, es)) (escape_unit e))"

lemma unescape_shorter: "unescape s = Some (u, rest) \<Longrightarrow> length rest < length s"
  by (cases s) (auto split: if_splits list.splits)

text \<open>
  The characters of a string literal after its opening quotation mark, up to the closing
  one: the decoded string and the rest of the input. A raw code unit below \<open>0x20\<close>, an
  unknown escape and a missing closing quotation mark are errors.
\<close>

function lex_string :: "jsstring \<Rightarrow> (jsstring \<times> jsstring) option" where
  "lex_string [] = None"
| "lex_string (c # cs) =
     (if c = 0x22 then Some ([], cs)
      else if c = 0x5C then
        (case unescape cs of
           None \<Rightarrow> None
         | Some (u, rest) \<Rightarrow> map_option (apfst ((#) u)) (lex_string rest))
      else if c < 0x20 then None
      else map_option (apfst ((#) c)) (lex_string cs))"
  by pat_completeness auto
termination
proof (relation "measure length", goal_cases)
  case 1
  show ?case by simp
next
  case (2 c cs x2 u rest)
  then show ?case using unescape_shorter[of cs u rest] by simp
next
  case (3 c cs)
  show ?case by simp
qed

lemma lex_string_shorter: "lex_string s = Some (str, rest) \<Longrightarrow> length rest < length s"
proof (induction s arbitrary: str rest rule: lex_string.induct)
  case 1
  then show ?case by simp
next
  case (2 c cs)
  show ?case
  proof (cases "c = 0x22")
    case True
    with 2(3) show ?thesis by simp
  next
    case nq: False
    show ?thesis
    proof (cases "c = 0x5C")
      case True
      with nq 2(3) obtain u r s' where u: "unescape cs = Some (u, r)"
        and r: "lex_string r = Some (s', rest)"
        by (auto split: option.splits)
      from 2(1)[OF nq True u refl r] unescape_shorter[OF u]
      show ?thesis by simp
    next
      case False
      with nq 2(3) obtain s' where lo: "\<not> c < 0x20" and r: "lex_string cs = Some (s', rest)"
        by (auto split: if_splits)
      from 2(2)[OF nq False lo r] show ?thesis by simp
    qed
  qed
qed

text \<open>
  The grammar of a number literal: an optional minus sign, an integer part without a
  leading zero, an optional fraction and an optional exponent.
\<close>

definition is_number_char :: "16 word \<Rightarrow> bool" where
  "is_number_char c \<longleftrightarrow> is_digit c \<or> c = 0x2B \<or> c = 0x2D \<or> c = 0x2E \<or> c = 0x45 \<or> c = 0x65"

definition valid_exponent :: "jsstring \<Rightarrow> bool" where
  "valid_exponent s =
     (case s of
        [] \<Rightarrow> True
      | e # r \<Rightarrow>
          (e = 0x45 \<or> e = 0x65) \<and>
          (let ds = (case r of [] \<Rightarrow> [] | sg # t \<Rightarrow> if sg = 0x2B \<or> sg = 0x2D then t else r)
           in ds \<noteq> [] \<and> list_all is_digit ds))"

definition valid_fraction :: "jsstring \<Rightarrow> bool" where
  "valid_fraction s =
     (case s of
        [] \<Rightarrow> True
      | p # r \<Rightarrow>
          if p = 0x2E
          then takeWhile is_digit r \<noteq> [] \<and> valid_exponent (dropWhile is_digit r)
          else valid_exponent s)"

definition valid_number :: "jsstring \<Rightarrow> bool" where
  "valid_number s =
     (let u = (case s of [] \<Rightarrow> [] | m # r \<Rightarrow> if m = 0x2D then r else s)
      in case u of
           [] \<Rightarrow> False
         | d # r \<Rightarrow>
             if d = 0x30 then valid_fraction r
             else is_digit d \<and> valid_fraction (dropWhile is_digit r))"

text \<open>
  The token at the head of the input and the rest of the input, or \<open>None\<close> where no token
  starts. A number is the longest run of number characters, and must be a number literal
  as a whole: what follows a number in a JSON text is never a number character.
\<close>

fun next_token :: "jsstring \<Rightarrow> (token \<times> jsstring) option" where
  "next_token [] = None"
| "next_token (c # cs) =
     (if c = 0x7B then Some (LBrace, cs)
      else if c = 0x7D then Some (RBrace, cs)
      else if c = 0x5B then Some (LBracket, cs)
      else if c = 0x5D then Some (RBracket, cs)
      else if c = 0x3A then Some (Colon, cs)
      else if c = 0x2C then Some (Comma, cs)
      else if c = 0x22 then map_option (apfst TString) (lex_string cs)
      else if c = 0x6E then
        (if take 3 cs = js ''ull'' then Some (TNull, drop 3 cs) else None)
      else if c = 0x74 then
        (if take 3 cs = js ''rue'' then Some (TTrue, drop 3 cs) else None)
      else if c = 0x66 then
        (if take 4 cs = js ''alse'' then Some (TFalse, drop 4 cs) else None)
      else if c = 0x2D \<or> is_digit c then
        (if valid_number (c # takeWhile is_number_char cs)
         then Some (TNumber (c # takeWhile is_number_char cs), dropWhile is_number_char cs)
         else None)
      else None)"

lemma next_token_shorter: "next_token s = Some (t, rest) \<Longrightarrow> length rest < length s"
proof (cases s)
  case Nil
  assume "next_token s = Some (t, rest)"
  with Nil show ?thesis by simp
next
  case (Cons c cs)
  assume "next_token s = Some (t, rest)"
  with Cons show ?thesis
    by (auto split: if_splits simp: less_Suc_eq_le length_dropWhile_le
             dest!: lex_string_shorter)
qed

text \<open>The token list of a text; white space between tokens is skipped.\<close>

function lex :: "jsstring \<Rightarrow> token list option" where
  "lex [] = Some []"
| "lex (c # cs) =
     (if is_json_space c then lex cs
      else
        (case next_token (c # cs) of
           None \<Rightarrow> None
         | Some (t, rest) \<Rightarrow> map_option ((#) t) (lex rest)))"
  by pat_completeness auto
termination
proof (relation "measure length", goal_cases)
  case 1
  show ?case by simp
next
  case (2 c cs)
  show ?case by simp
next
  case (3 c cs x2 t rest)
  then show ?case using next_token_shorter[of "c # cs" t rest] by simp
qed

subsection \<open>Grammar\<close>

text \<open>
  A pushdown parser over the tokens. \<open>parse_value\<close> reads a value; \<open>parse_after\<close> has
  just read one and closes or continues the innermost open array or object. The stack
  holds the arrays and objects that are open, each with what it has collected so far (in
  reverse); an open object also holds the key whose value is being read.
\<close>

datatype frame =
    InArray "json list"
  | InObject "(jsstring \<times> json) list" jsstring

fun parse_value :: "frame list \<Rightarrow> token list \<Rightarrow> json option"
  and parse_after :: "json \<Rightarrow> frame list \<Rightarrow> token list \<Rightarrow> json option" where
  "parse_value st [] = None"
| "parse_value st (t # ts) =
     (case t of
        TNull \<Rightarrow> parse_after JNull st ts
      | TTrue \<Rightarrow> parse_after (JBool True) st ts
      | TFalse \<Rightarrow> parse_after (JBool False) st ts
      | TNumber n \<Rightarrow> parse_after (JNumber n) st ts
      | TString s \<Rightarrow> parse_after (JString s) st ts
      | LBracket \<Rightarrow>
          (case ts of
             RBracket # ts' \<Rightarrow> parse_after (JArray []) st ts'
           | _ \<Rightarrow> parse_value (InArray [] # st) ts)
      | LBrace \<Rightarrow>
          (case ts of
             RBrace # ts' \<Rightarrow> parse_after (JObject []) st ts'
           | TString k # Colon # ts' \<Rightarrow> parse_value (InObject [] k # st) ts'
           | _ \<Rightarrow> None)
      | _ \<Rightarrow> None)"
| "parse_after v [] ts = (if ts = [] then Some v else None)"
| "parse_after v (InArray es # st) ts =
     (case ts of
        Comma # ts' \<Rightarrow> parse_value (InArray (v # es) # st) ts'
      | RBracket # ts' \<Rightarrow> parse_after (JArray (rev (v # es))) st ts'
      | _ \<Rightarrow> None)"
| "parse_after v (InObject ms k # st) ts =
     (case ts of
        Comma # TString k' # Colon # ts' \<Rightarrow> parse_value (InObject ((k, v) # ms) k' # st) ts'
      | RBrace # ts' \<Rightarrow> parse_after (JObject (rev ((k, v) # ms))) st ts'
      | _ \<Rightarrow> None)"

text \<open>\<open>None\<close> stands for the \<open>SyntaxError\<close> that \<open>JSON.parse\<close> throws.\<close>

definition JSON_parse :: "jsstring \<Rightarrow> json option" where
  "JSON_parse text = (case lex text of None \<Rightarrow> None | Some ts \<Rightarrow> parse_value [] ts)"

section \<open>External services\<close>

text \<open>
  The text-generation client, the image client and the document store are outside the
  program. A call to one of them either throws at once or returns a promise, which is
  later rejected or fulfilled; the value thrown or rejected with is only ever printed, so
  it is not kept.
\<close>

datatype 'a settled = Rejected | Fulfilled 'a

datatype 'a call = Throws | Returns "'a settled"

text \<open>\<open>await\<close> on a call inside a \<open>try\<close> block: \<open>None\<close> when control goes to the handler.\<close>

fun await :: "'a call \<Rightarrow> 'a option" where
  "await Throws = None"
| "await (Returns Rejected) = None"
| "await (Returns (Fulfilled x)) = Some x"

text \<open>
  The requests as the source builds them. \<open>top_p\<close> is the decimal literal of the source
  as a rational; the properties \<open>n\<close> and \<open>size\<close> of an image request are written
  \<open>n'\<close> and \<open>size'\<close>.
\<close>

record HfParameters =
  max_length :: nat
  do_sample :: bool
  top_k :: nat
  top_p :: rat
  num_return_sequences :: nat

record HfRequest =
  model :: jsstring
  inputs :: jsstring
  parameters :: HfParameters

record HfResponse =
  generated_text :: jsstring

record ImagesRequest =
  model :: jsstring
  prompt :: jsstring
  n' :: nat
  size' :: jsstring

text \<open>
  Modelled from the spec: the declaration of \<open>ImagesResponse\<close> belongs to the image
  client; a response is \<open>{data: [{url}]}\<close>. The type of \<open>url\<close> is left open.
\<close>

record 'u Image =
  url :: 'u

record 'u ImagesResponse =
  data :: "'u Image list"

text \<open>
  The document of the collection \<open>aiGenerated\<close>; its \<open>response\<close> field holds whatever
  the caller logs: one text-generation response or the list of image responses.
\<close>

datatype 'u logged = TextResponse HfResponse | ImageResponses "'u ImagesResponse list"

record 'u AiGenerated =
  userId :: jsstring
  prompt :: jsstring
  response :: "'u logged"

text \<open>
  The outcome of every external call. The image client is asked once per recipe of a
  batch; its outcome may depend on the position of the request in the batch as well as on
  the request. A fulfilled \<open>create\<close> yields the \<open>_id\<close> of the new document.
\<close>

record 'u env =
  hf_textGeneration :: "HfRequest \<Rightarrow> HfResponse call"
  openai_images_generate :: "nat \<Rightarrow> ImagesRequest \<Rightarrow> 'u ImagesResponse call"
  connectDB :: "unit call"
  aiGenerated_create :: "'u AiGenerated \<Rightarrow> jsstring call"

text \<open>
  What a run does to the outside, in order: the calls it makes and the lines it prints
  (a printed line is recorded by its label, without the value that follows it).
\<close>

datatype 'u event =
    Call_textGeneration HfRequest
  | Call_images_generate ImagesRequest
  | Call_connectDB
  | Call_create "'u AiGenerated"
  | Console_log jsstring
  | Console_error jsstring

text \<open>What a function throws; only \<open>Error\<close> with a message ever reaches a caller.\<close>

datatype exn = Error jsstring | TypeError | SyntaxError

section \<open>Response logger\<close>

definition saveOpenaiResponses ::
    "'u env \<Rightarrow> 'u AiGenerated \<Rightarrow> jsstring option \<times> 'u event list" where
  "saveOpenaiResponses env doc =
     (case await (connectDB env) of
        None \<Rightarrow>
          (None, [Call_connectDB, Console_error (js ''Failed to save response to db:'')])
      | Some _ \<Rightarrow>
          (case await (aiGenerated_create env doc) of
             None \<Rightarrow>
               (None, [Call_connectDB, Call_create doc,
                       Console_error (js ''Failed to save response to db:'')])
           | Some docId \<Rightarrow> (Some docId, [Call_connectDB, Call_create doc])))"

section \<open>Inference client\<close>

record ResponseType =
  recipes :: "jsstring option"
  openaiPromptId :: jsstring

text \<open>
  \<open>_id || 'null-prompt-id'\<close> (here \<open>docId\<close>): the right operand is taken when the left
  one is \<open>null\<close>, and also when it is the empty string (\<open>openaiPromptId\<close> is declared a
  string).
\<close>

definition or_null_prompt_id :: "jsstring option \<Rightarrow> jsstring" where
  "or_null_prompt_id docId =
     (case docId of
        None \<Rightarrow> js ''null-prompt-id''
      | Some i \<Rightarrow> if i = [] then js ''null-prompt-id'' else i)"

definition recipe_request :: "jsstring \<Rightarrow> HfRequest" where
  "recipe_request p =
     \<lparr>HfRequest.model = js ''EleutherAI/gpt-neo-2.7B'', inputs = p,
      parameters = \<lparr>max_length = 1500, do_sample = True, top_k = 50, top_p = 95 / 100,
                    num_return_sequences = 1\<rparr>\<rparr>"

definition generateRecipe ::
    "'u env \<Rightarrow> Ingredient list \<Rightarrow> DietaryPreference list \<Rightarrow> jsstring \<Rightarrow>
     (exn + ResponseType) \<times> 'u event list" where
  "generateRecipe env ingredientList dietaryPreferences uid =
     (let p = getRecipeGenerationPrompt ingredientList dietaryPreferences;
          req = recipe_request p
      in case await (hf_textGeneration env req) of
           None \<Rightarrow>
             (Inl (Error (js ''Failed to generate recipe'')),
              [Call_textGeneration req, Console_error (js ''Failed to generate recipe:'')])
         | Some resp \<Rightarrow>
             (let generatedText = generated_text resp;
                  (docId, saved) = saveOpenaiResponses env
                     \<lparr>userId = uid, AiGenerated.prompt = p, response = TextResponse resp\<rparr>
              in (Inr \<lparr>recipes = Some generatedText, openaiPromptId = or_null_prompt_id docId\<rparr>,
                  Call_textGeneration req # saved)))"

subsection \<open>Images\<close>

definition image_request :: "jsstring \<Rightarrow> ImagesRequest" where
  "image_request p =
     \<lparr>ImagesRequest.model = js ''dall-e-3'', prompt = p, n' = 1, size' = js ''1024x1024''\<rparr>"

text \<open>
  \<open>generateImage\<close> does not await: it hands the promise of the client on, and turns only
  an exception thrown by the call itself into its own error. \<open>i\<close> is the position of the
  request in the batch.
\<close>

definition generateImage ::
    "'u env \<Rightarrow> nat \<Rightarrow> jsstring \<Rightarrow> (exn + 'u ImagesResponse settled) \<times> 'u event list" where
  "generateImage env i p =
     (case openai_images_generate env i (image_request p) of
        Throws \<Rightarrow>
          (Inl (Error (js ''Failed to generate image'')), [Call_images_generate (image_request p)])
      | Returns promise \<Rightarrow> (Inr promise, [Call_images_generate (image_request p)]))"

text \<open>
  \<open>recipes.map(recipe => generateImage(...))\<close>: the requests are issued one after the
  other, and an exception ends the loop.
\<close>

fun imagePromises ::
    "'u env \<Rightarrow> nat \<Rightarrow> Recipe list \<Rightarrow> (exn + 'u ImagesResponse settled list) \<times> 'u event list" where
  "imagePromises env i [] = (Inr [], [])"
| "imagePromises env i (recipe # rest) =
     (case generateImage env i
             (getImageGenerationPrompt (Recipe.name recipe) (ingredients recipe)) of
        (Inl e, evs) \<Rightarrow> (Inl e, evs)
      | (Inr promise, evs) \<Rightarrow>
          (case imagePromises env (Suc i) rest of
             (Inl e, evs') \<Rightarrow> (Inl e, evs @ evs')
           | (Inr promises, evs') \<Rightarrow> (Inr (promise # promises), evs @ evs')))"

text \<open>\<open>await Promise.all(...)\<close>: the values in the order of the promises, unless one is rejected.\<close>

fun Promise_all :: "'a settled list \<Rightarrow> 'a list option" where
  "Promise_all [] = Some []"
| "Promise_all (Rejected # ps) = None"
| "Promise_all (Fulfilled x # ps) = map_option ((#) x) (Promise_all ps)"

record 'u ImageWithName =
  imgLink :: 'u
  name :: jsstring

text \<open>
  \<open>images.map((imageResponse, idx) => ...)\<close>: reading \<open>.url\<close> of \<open>data[0]\<close> throws a
  \<open>TypeError\<close> when the array is empty, and so does reading \<open>.name\<close> of \<open>recipes[idx]\<close>
  when the index is out of range.
\<close>

fun imagesWithNames ::
    "Recipe list \<Rightarrow> nat \<Rightarrow> 'u ImagesResponse list \<Rightarrow> exn + 'u ImageWithName list" where
  "imagesWithNames rs idx [] = Inr []"
| "imagesWithNames rs idx (imageResponse # rest) =
     (case data imageResponse of
        [] \<Rightarrow> Inl TypeError
      | img # _ \<Rightarrow>
          if idx < length rs
          then (case imagesWithNames rs (Suc idx) rest of
                  Inl e \<Rightarrow> Inl e
                | Inr pairs \<Rightarrow>
                    Inr (\<lparr>imgLink = url img, name = Recipe.name (rs ! idx)\<rparr> # pairs))
          else Inl TypeError)"

definition batch_prompt :: "Recipe list \<Rightarrow> jsstring" where
  "batch_prompt rs =
     js ''Image generation for recipe names '' @ join (js '' ,'') (map Recipe.name rs) @
     js '' (note: not exact prompt)''"

definition generateImages ::
    "'u env \<Rightarrow> Recipe list \<Rightarrow> jsstring \<Rightarrow> (exn + 'u ImageWithName list) \<times> 'u event list" where
  "generateImages env rs uid =
     (case imagePromises env 0 rs of
        (Inl e, evs) \<Rightarrow>
          (Inl (Error (js ''Failed to generate image'')),
           evs @ [Console_error (js ''Error generating image:'')])
      | (Inr promises, evs) \<Rightarrow>
          (case Promise_all promises of
             None \<Rightarrow>
               (Inl (Error (js ''Failed to generate image'')),
                evs @ [Console_error (js ''Error generating image:'')])
           | Some images \<Rightarrow>
               (let (docId, saved) = saveOpenaiResponses env
                      \<lparr>userId = uid, AiGenerated.prompt = batch_prompt rs,
                       response = ImageResponses images\<rparr>
                in case imagesWithNames rs 0 images of
                     Inl e \<Rightarrow>
                       (Inl (Error (js ''Failed to generate image'')),
                        evs @ saved @ [Console_error (js ''Error generating image:'')])
                   | Inr pairs \<Rightarrow> (Inr pairs, evs @ saved))))"

subsection \<open>Reading a batch\<close>

text \<open>
  The request that \<open>generateImages\<close> builds for a recipe, the outcome that the image
  client has for each recipe of a batch (by position, from position \<open>i\<close> on), and the image
  requests among the events of a run, in order.
\<close>

definition recipe_image_request :: "Recipe \<Rightarrow> ImagesRequest" where
  "recipe_image_request r =
     image_request (getImageGenerationPrompt (Recipe.name r) (ingredients r))"

fun outcomes :: "'u env \<Rightarrow> nat \<Rightarrow> Recipe list \<Rightarrow> 'u ImagesResponse call list" where
  "outcomes env i [] = []"
| "outcomes env i (r # rs) =
     openai_images_generate env i (recipe_image_request r) # outcomes env (Suc i) rs"

fun image_requests :: "'u event list \<Rightarrow> ImagesRequest list" where
  "image_requests [] = []"
| "image_requests (Call_images_generate r # evs) = r # image_requests evs"
| "image_requests (e # evs) = image_requests evs"

text \<open>The pair that \<open>generateImages\<close> returns for a response and its recipe.\<close>

definition image_with_name :: "'u ImagesResponse \<Rightarrow> Recipe \<Rightarrow> 'u ImageWithName" where
  "image_with_name im r = \<lparr>imgLink = url (hd (data im)), name = Recipe.name r\<rparr>"

subsection \<open>Ingredient validation\<close>

text \<open>
  The shape of the interface \<open>ValidationResponse\<close>: an object whose \<open>isValid\<close> is a
  boolean and whose \<open>possibleVariations\<close> is an array of strings.
\<close>

fun is_JString :: "json \<Rightarrow> bool" where
  "is_JString (JString s) = True"
| "is_JString _ = False"

definition is_ValidationResponse :: "json \<Rightarrow> bool" where
  "is_ValidationResponse v =
     (case v of
        JObject ms \<Rightarrow>
          (case get_property ms (js ''isValid'') of
             Some (JBool b) \<Rightarrow>
               (case get_property ms (js ''possibleVariations'') of
                  Some (JArray xs) \<Rightarrow> list_all is_JString xs
                | _ \<Rightarrow> False)
           | _ \<Rightarrow> False)
      | _ \<Rightarrow> False)"

definition validation_request :: "jsstring \<Rightarrow> HfRequest" where
  "validation_request p =
     \<lparr>HfRequest.model = js ''EleutherAI/gpt-neo-2.7B'', inputs = p,
      parameters = \<lparr>max_length = 200, do_sample = False, top_k = 50, top_p = 95 / 100,
                    num_return_sequences = 1\<rparr>\<rparr>"

text \<open>The result is the parsed value; \<open>JNull\<close> is the \<open>null\<close> of the source.\<close>

definition validateIngredient ::
    "'u env \<Rightarrow> jsstring \<Rightarrow> jsstring \<Rightarrow> (exn + json) \<times> 'u event list" where
  "validateIngredient env ingredientName uid =
     (let p = getIngredientValidationPrompt ingredientName;
          req = validation_request p
      in case await (hf_textGeneration env req) of
           None \<Rightarrow>
             (Inl (Error (js ''Failed to validate ingredient'')),
              [Call_textGeneration req, Console_error (js ''Failed to validate ingredient:'')])
         | Some resp \<Rightarrow>
             (let validationText = generated_text resp
              in if validationText \<noteq> [] then
                   (case JSON_parse (trim validationText) of
                      None \<Rightarrow>
                        (Inr JNull,
                         [Call_textGeneration req,
                          Console_log (js ''Raw response from Hugging Face:''),
                          Console_log (js ''Validation Text:''),
                          Console_error (js ''Failed to parse JSON response:'')])
                    | Some jsonResponse \<Rightarrow>
                        (let (docId, saved) = saveOpenaiResponses env
                               \<lparr>userId = uid, AiGenerated.prompt = p,
                                response = TextResponse resp\<rparr>
                         in (Inr jsonResponse,
                             [Call_textGeneration req,
                              Console_log (js ''Raw response from Hugging Face:''),
                              Console_log (js ''Validation Text:'')] @ saved)))
                 else
                   (Inr JNull,
                    [Call_textGeneration req,
                     Console_log (js ''Raw response from Hugging Face:''),
                     Console_error (js ''No response text received from Hugging Face'')])))"

section \<open>Auth configuration\<close>

text \<open>
  Modelled from the spec: the types of the session and of the user belong to the
  authentication framework; only the property \<open>id\<close> of a user object is read or written
  here (written \<open>id'\<close>), so the other properties are the extension of the record.
\<close>

record 'i User =
  id' :: 'i

record ('i, 'x) Session =
  user :: "('i, 'x) User_scheme"

text \<open>
  The two callbacks of \<open>authOptions\<close>. The assignment to \<open>session.user.id\<close> is an
  update of the session that is returned.
\<close>

definition session ::
    "('i, 'x, 's) Session_scheme \<Rightarrow> 't \<Rightarrow> ('i, 'y) User_scheme \<Rightarrow>
     ('i, 'x, 's) Session_scheme" where
  "session sess token usr = sess\<lparr>user := (user sess)\<lparr>id' := id' usr\<rparr>\<rparr>"

definition redirect :: "jsstring \<Rightarrow> jsstring \<Rightarrow> jsstring" where
  "redirect requested baseUrl = baseUrl"

section \<open>Reading the events of a run\<close>

text \<open>
  A run attempts a log write when it calls the document store: \<open>saveOpenaiResponses\<close>
  begins with the connection and goes on to \<open>create\<close> when the connection is there.
\<close>

fun is_store_call :: "'u event \<Rightarrow> bool" where
  "is_store_call Call_connectDB = True"
| "is_store_call (Call_create doc) = True"
| "is_store_call e = False"

definition attempts_log_write :: "'u event list \<Rightarrow> bool" where
  "attempts_log_write evs = list_ex is_store_call evs"

section \<open>Example worlds\<close>

text \<open>
  A world in which every text generation has the outcome \<open>t\<close>, the image request at
  position \<open>k\<close> of a batch has the outcome \<open>imgs ! k\<close> (and throws beyond the list), the
  connection to the store has the outcome \<open>c\<close> and every \<open>create\<close> the outcome \<open>d\<close>.
\<close>

definition world ::
    "HfResponse call \<Rightarrow> 'u ImagesResponse call list \<Rightarrow> unit call \<Rightarrow> jsstring call \<Rightarrow> 'u env" where
  "world t imgs c d =
     \<lparr>hf_textGeneration = (\<lambda>req. t),
      openai_images_generate = (\<lambda>k req. if k < length imgs then imgs ! k else Throws),
      connectDB = c,
      aiGenerated_create = (\<lambda>doc. d)\<rparr>"

definition text_reply :: "jsstring \<Rightarrow> HfResponse call" where
  "text_reply s = Returns (Fulfilled \<lparr>generated_text = s\<rparr>)"

definition image_reply :: "'u list \<Rightarrow> 'u ImagesResponse call" where
  "image_reply urls = Returns (Fulfilled \<lparr>data = map (\<lambda>u. \<lparr>url = u\<rparr>) urls\<rparr>)"

definition recipe_of :: "jsstring \<Rightarrow> Ingredient list \<Rightarrow> Recipe" where
  "recipe_of nm ings =
     \<lparr>Recipe.name = nm, ingredients = ings, instructions = [], dietaryPreference = [],
      additionalInformation =
        \<lparr>tips = [], variations = [], servingSuggestions = [], nutritionalInformation = []\<rparr>\<rparr>"

definition egg :: Ingredient where
  "egg = \<lparr>Ingredient.name = js ''egg'', quantity = js ''2''\<rparr>"

section \<open>White space around a JSON text\<close>

text \<open>
  Every white space character of JSON is one that \<open>trim\<close> removes, and no token starts
  with a character that \<open>trim\<close> removes. So a text that parses still parses, to the same
  value, after \<open>trim\<close>.
\<close>

lemma json_space_trim_space: "is_json_space c \<Longrightarrow> is_trim_space c"
  by (auto simp: is_json_space_def is_trim_space_def)

lemma trim_space_range:
  "is_trim_space c \<Longrightarrow>
     c = 0x09 \<or> c = 0x0A \<or> c = 0x0B \<or> c = 0x0C \<or> c = 0x0D \<or> c = 0x20 \<or> 0xA0 \<le> c"
  unfolding is_trim_space_def by (elim disjE conjE) (simp_all, uint_arith?)

lemma trim_space_not_token_char:
  assumes "is_trim_space c"
  shows "c \<noteq> 0x22" "c \<noteq> 0x5C" "c \<noteq> 0x7B" "c \<noteq> 0x7D" "c \<noteq> 0x5B" "c \<noteq> 0x5D" "c \<noteq> 0x3A"
    "c \<noteq> 0x2C" "c \<noteq> 0x6E" "c \<noteq> 0x74" "c \<noteq> 0x66" "c \<noteq> 0x2D" "c \<noteq> 0x75" "c \<noteq> 0x6C"
    "c \<noteq> 0x72" "c \<noteq> 0x65" "c \<noteq> 0x61" "c \<noteq> 0x73"
    "\<not> is_digit c" "\<not> is_number_char c" "hex_value c = None" "escape_unit c = None"
  using trim_space_range[OF assms]
  unfolding is_digit_def is_number_char_def hex_value_def escape_unit_def
  by (elim disjE; simp; uint_arith)+

lemma lex_string_spaces: "list_all is_trim_space w \<Longrightarrow> lex_string w = None"
proof (induction w)
  case Nil
  show ?case by simp
next
  case (Cons c w)
  then have "is_trim_space c" and ih: "lex_string w = None" by simp_all
  from trim_space_not_token_char(1,2)[OF this(1)] ih show ?case by simp
qed

lemma unescape_append:
  assumes "unescape (s @ w) = Some (u, r)" and "list_all is_trim_space w"
  shows "\<exists>rest. unescape s = Some (u, rest) \<and> r = rest @ w"
proof (cases s)
  case Nil
  with assms show ?thesis
    by (cases w) (auto simp: trim_space_not_token_char split: if_splits)
next
  case (Cons e es)
  show ?thesis
  proof (cases "e = 0x75")
    case False
    with Cons assms show ?thesis by auto
  next
    case True
    from True Cons assms show ?thesis
      apply (cases es; cases w)
      apply (auto split: list.splits option.splits simp: hex4_def trim_space_not_token_char)
      done
  qed
qed

lemma lex_string_append:
  "lex_string (s @ w) = Some (str, r) \<Longrightarrow> list_all is_trim_space w \<Longrightarrow>
   \<exists>rest. lex_string s = Some (str, rest) \<and> r = rest @ w"
proof (induction s arbitrary: str r rule: lex_string.induct)
  case 1
  then show ?case using lex_string_spaces[of w] by simp
next
  case (2 c cs)
  show ?case
  proof (cases "c = 0x22")
    case True
    with 2(3) show ?thesis by simp
  next
    case nq: False
    show ?thesis
    proof (cases "c = 0x5C")
      case True
      with nq 2(3) obtain u r' s' where u: "unescape (cs @ w) = Some (u, r')"
        and r: "lex_string r' = Some (s', r)" and str: "str = u # s'"
        by (auto split: option.splits)
      from unescape_append[OF u 2(4)] obtain rest' where
        u': "unescape cs = Some (u, rest')" and r': "r' = rest' @ w" by blast
      from 2(1)[OF nq True u' refl r[unfolded r'] 2(4)] obtain rest where
        "lex_string rest' = Some (s', rest)" "r = rest @ w" by blast
      with nq True u' str show ?thesis by simp
    next
      case False
      with nq 2(3) obtain s' where lo: "\<not> c < 0x20"
        and r: "lex_string (cs @ w) = Some (s', r)" and str: "str = c # s'"
        by (auto split: if_splits)
      from 2(2)[OF nq False lo r 2(4)] obtain rest where
        "lex_string cs = Some (s', rest)" "r = rest @ w" by blast
      with nq False lo str show ?thesis by simp
    qed
  qed
qed

lemma unescape_suffix: "unescape s = Some (u, rest) \<Longrightarrow> suffix rest s"
  by (cases s) (auto split: if_splits list.splits simp: suffix_def)

lemma lex_string_suffix: "lex_string s = Some (str, rest) \<Longrightarrow> suffix rest s"
proof (induction s arbitrary: str rest rule: lex_string.induct)
  case 1
  then show ?case by simp
next
  case (2 c cs)
  show ?case
  proof (cases "c = 0x22")
    case True
    with 2(3) show ?thesis by (simp add: suffix_ConsI)
  next
    case nq: False
    show ?thesis
    proof (cases "c = 0x5C")
      case True
      with nq 2(3) obtain u r s' where u: "unescape cs = Some (u, r)"
        and r: "lex_string r = Some (s', rest)"
        by (auto split: option.splits)
      from 2(1)[OF nq True u refl r] unescape_suffix[OF u]
      show ?thesis by (auto simp: suffix_def)
    next
      case False
      with nq 2(3) obtain s' where lo: "\<not> c < 0x20" and r: "lex_string cs = Some (s', rest)"
        by (auto split: if_splits)
      from 2(2)[OF nq False lo r] show ?thesis by (simp add: suffix_ConsI)
    qed
  qed
qed

lemma take_literal_append:
  assumes "take k (cs @ w) = lit" and "length lit = k" and "list_all is_trim_space w"
    and "\<not> list_ex is_trim_space lit"
  shows "take k cs = lit \<and> drop k (cs @ w) = drop k cs @ w"
proof (cases "k \<le> length cs")
  case True
  with assms(1) show ?thesis by simp
next
  case False
  then have "take k (cs @ w) = cs @ take (k - length cs) w" and pos: "0 < k - length cs"
    by simp_all
  with assms(1) have lit: "lit = cs @ take (k - length cs) w" by simp
  with assms(2) False have "take (k - length cs) w \<noteq> []" by auto
  then obtain x xs where x: "take (k - length cs) w = x # xs" by (cases "take (k - length cs) w") auto
  then have "x \<in> set w" by (metis in_set_takeD list.set_intros(1))
  with assms(3) have "is_trim_space x" by (simp add: list_all_iff)
  with lit x assms(4) show ?thesis by (auto simp: list_ex_iff)
qed

lemma number_chars_append:
  assumes "list_all is_trim_space w"
  shows "takeWhile is_number_char (cs @ w) = takeWhile is_number_char cs"
    and "dropWhile is_number_char (cs @ w) = dropWhile is_number_char cs @ w"
proof -
  have w: "takeWhile is_number_char w = []" "dropWhile is_number_char w = w"
    using assms by (cases w; simp add: trim_space_not_token_char)+
  show "takeWhile is_number_char (cs @ w) = takeWhile is_number_char cs"
    using w by (induction cs) auto
  show "dropWhile is_number_char (cs @ w) = dropWhile is_number_char cs @ w"
    using w by (induction cs) auto
qed

lemma next_token_append:
  assumes "next_token (s @ w) = Some (t, r)" and "list_all is_trim_space w" and "s \<noteq> []"
  shows "\<exists>rest. next_token s = Some (t, rest) \<and> r = rest @ w"
proof -
  from assms(3) obtain c cs where s: "s = c # cs" by (cases s) auto
  have tl3: "\<And>lit. take 3 (cs @ w) = lit \<Longrightarrow> length lit = 3 \<Longrightarrow> \<not> list_ex is_trim_space lit \<Longrightarrow>
      take 3 cs = lit \<and> drop 3 (cs @ w) = drop 3 cs @ w"
    using take_literal_append[OF _ _ assms(2)] by blast
  have tl4: "\<And>lit. take 4 (cs @ w) = lit \<Longrightarrow> length lit = 4 \<Longrightarrow> \<not> list_ex is_trim_space lit \<Longrightarrow>
      take 4 cs = lit \<and> drop 4 (cs @ w) = drop 4 cs @ w"
    using take_literal_append[OF _ _ assms(2)] by blast
  have ull: "length (js ''ull'') = 3" "\<not> list_ex is_trim_space (js ''ull'')"
    and rue: "length (js ''rue'') = 3" "\<not> list_ex is_trim_space (js ''rue'')"
    and alse: "length (js ''alse'') = 4" "\<not> list_ex is_trim_space (js ''alse'')"
    by (simp_all add: js_def is_trim_space_def)
  note num = number_chars_append[OF assms(2), of cs]
  consider (punct) "c = 0x7B \<or> c = 0x7D \<or> c = 0x5B \<or> c = 0x5D \<or> c = 0x3A \<or> c = 0x2C"
    | (str) "c = 0x22" | (n) "c = 0x6E" | (t) "c = 0x74" | (f) "c = 0x66"
    | (other) "c \<noteq> 0x7B" "c \<noteq> 0x7D" "c \<noteq> 0x5B" "c \<noteq> 0x5D" "c \<noteq> 0x3A" "c \<noteq> 0x2C"
        "c \<noteq> 0x22" "c \<noteq> 0x6E" "c \<noteq> 0x74" "c \<noteq> 0x66"
    by blast
  then show ?thesis
  proof cases
    case punct
    with assms(1) s show ?thesis by (auto split: if_splits)
  next
    case str
    with assms(1) s obtain str' where "lex_string (cs @ w) = Some (str', r)" "t = TString str'"
      by auto
    with lex_string_append[OF this(1) assms(2)] str s show ?thesis by auto
  next
    case n
    with assms(1) s have "take 3 (cs @ w) = js ''ull''" "t = TNull" "r = drop 3 (cs @ w)"
      by (auto split: if_splits)
    with tl3[OF this(1) ull] n s show ?thesis by simp
  next
    case t
    with assms(1) s have "take 3 (cs @ w) = js ''rue''" "t = TTrue" "r = drop 3 (cs @ w)"
      by (auto split: if_splits)
    with tl3[OF this(1) rue] t s show ?thesis by simp
  next
    case f
    with assms(1) s have "take 4 (cs @ w) = js ''alse''" "t = TFalse" "r = drop 4 (cs @ w)"
      by (auto split: if_splits)
    with tl4[OF this(1) alse] f s show ?thesis by simp
  next
    case other
    with assms(1) s num show ?thesis by (auto split: if_splits)
  qed
qed

lemma next_token_suffix: "next_token s = Some (t, rest) \<Longrightarrow> suffix rest s"
proof (cases s)
  case Nil
  assume "next_token s = Some (t, rest)"
  with Nil show ?thesis by simp
next
  case (Cons c cs)
  assume "next_token s = Some (t, rest)"
  with Cons show ?thesis
    by (auto split: if_splits simp: suffix_ConsI suffix_drop suffix_dropWhile
             dest!: lex_string_suffix)
qed

lemma next_token_space: "is_trim_space c \<Longrightarrow> next_token (c # cs) = None"
  by (simp add: trim_space_not_token_char)

lemma lex_spaces: "list_all is_trim_space w \<Longrightarrow> lex w = Some ts \<Longrightarrow> ts = []"
proof (induction w)
  case Nil
  then show ?case by simp
next
  case (Cons c w)
  then show ?case
    by (cases "is_json_space c") (simp_all add: next_token_space del: next_token.simps)
qed

lemma lex_dropWhile: "lex s = Some ts \<Longrightarrow> lex (dropWhile is_trim_space s) = Some ts"
proof (induction s)
  case Nil
  then show ?case by simp
next
  case (Cons c s)
  show ?case
  proof (cases "is_trim_space c")
    case False
    with Cons.prems show ?thesis by simp
  next
    case True
    with Cons.prems have "is_json_space c"
      by (cases "is_json_space c") (simp_all add: next_token_space del: next_token.simps)
    with Cons True show ?thesis by simp
  qed
qed

lemma lex_append_spaces:
  "lex (s @ w) = Some ts \<Longrightarrow> list_all is_trim_space w \<Longrightarrow>
   s = [] \<or> \<not> is_trim_space (last s) \<Longrightarrow> lex s = Some ts"
proof (induction s arbitrary: ts rule: lex.induct)
  case 1
  then show ?case using lex_spaces[of w ts] by simp
next
  case (2 c cs)
  from 2(5) have last: "\<not> is_trim_space (last (c # cs))" by simp
  show ?case
  proof (cases "is_json_space c")
    case True
    with last have ne: "cs \<noteq> []" by (auto dest: json_space_trim_space)
    with last have "\<not> is_trim_space (last cs)" by simp
    with 2(1)[OF True _ 2(4)] 2(3) True show ?thesis by simp
  next
    case False
    with 2(3) obtain t r ts' where tok: "next_token ((c # cs) @ w) = Some (t, r)"
      and r: "lex r = Some ts'" and ts: "ts = t # ts'"
      by (auto split: option.splits simp del: next_token.simps)
    from next_token_append[OF tok 2(4)] obtain rest where
      tok': "next_token (c # cs) = Some (t, rest)" and r': "r = rest @ w" by blast
    from next_token_suffix[OF tok'] obtain pre where pre: "c # cs = pre @ rest"
      by (auto simp: suffix_def)
    with last have "rest = [] \<or> \<not> is_trim_space (last rest)" by (cases "rest = []") auto
    from 2(2)[OF False tok' refl r[unfolded r'] 2(4) this]
    have "lex rest = Some ts'" .
    with False tok' ts show ?thesis by (simp del: next_token.simps)
  qed
qed

lemma trim_split:
  "\<exists>w. dropWhile is_trim_space s = trim s @ w \<and> list_all is_trim_space w \<and>
       (trim s = [] \<or> \<not> is_trim_space (last (trim s)))"
proof -
  let ?d = "dropWhile is_trim_space s"
  have "rev (rev ?d) =
      rev (takeWhile is_trim_space (rev ?d) @ dropWhile is_trim_space (rev ?d))"
    by (simp only: takeWhile_dropWhile_id)
  then have "?d = trim s @ rev (takeWhile is_trim_space (rev ?d))"
    by (simp only: rev_rev_ident rev_append trim_def)
  moreover have "list_all is_trim_space (rev (takeWhile is_trim_space (rev ?d)))"
    by (simp add: list_all_iff) (meson set_takeWhileD)
  moreover have "trim s = [] \<or> \<not> is_trim_space (last (trim s))"
  proof (cases "dropWhile is_trim_space (rev ?d)")
    case Nil
    then show ?thesis by (simp add: trim_def)
  next
    case (Cons x xs)
    then have "\<not> is_trim_space x" by (metis hd_dropWhile list.sel(1) list.distinct(1))
    with Cons show ?thesis by (simp add: trim_def)
  qed
  ultimately show ?thesis by blast
qed

lemma lex_trim: "lex s = Some ts \<Longrightarrow> lex (trim s) = Some ts"
proof -
  assume "lex s = Some ts"
  then have d: "lex (dropWhile is_trim_space s) = Some ts" by (rule lex_dropWhile)
  from trim_split[of s] obtain w where w: "dropWhile is_trim_space s = trim s @ w"
    "list_all is_trim_space w" "trim s = [] \<or> \<not> is_trim_space (last (trim s))" by blast
  from lex_append_spaces[OF d[unfolded w(1)] w(2) w(3)] show ?thesis .
qed

lemma JSON_parse_trim: "JSON_parse s = Some v \<Longrightarrow> JSON_parse (trim s) = Some v"
  by (auto simp: JSON_parse_def lex_trim split: option.splits)

lemma JSON_parse_nonempty: "JSON_parse s = Some v \<Longrightarrow> s \<noteq> []"
  by (auto simp: JSON_parse_def)

section \<open>Properties of the prompt builders\<close>

text \<open>
  C5. The three prompt builders are functions of their arguments alone: they read no
  outcome of an external call and add nothing to the record of events, and two calls
  with equal arguments return the same sequence of code units.
\<close>

theorem prompt_builders_deterministic:
  "(ingredientList1 = ingredientList2 \<and> dietaryPreferences1 = dietaryPreferences2 \<longrightarrow>
      getRecipeGenerationPrompt ingredientList1 dietaryPreferences1 =
      getRecipeGenerationPrompt ingredientList2 dietaryPreferences2) \<and>
   (recipeName1 = recipeName2 \<and> ingredientList1 = ingredientList2 \<longrightarrow>
      getImageGenerationPrompt recipeName1 ingredientList1 =
      getImageGenerationPrompt recipeName2 ingredientList2) \<and>
   (ingredientName1 = ingredientName2 \<longrightarrow>
      getIngredientValidationPrompt ingredientName1 =
      getIngredientValidationPrompt ingredientName2)"
  by simp

theorem prompt_builders_deterministic_witness:
  "getRecipeGenerationPrompt [\<lparr>Ingredient.name = js ''egg'', quantity = js ''2''\<rparr>] [js ''vegan''] =
   getRecipeGenerationPrompt [\<lparr>Ingredient.name = js ''egg'', quantity = js ''2''\<rparr>] [js ''vegan''] \<and>
   getImageGenerationPrompt (js ''omelette'') [\<lparr>Ingredient.name = js ''egg'', quantity = js ''2''\<rparr>] =
   getImageGenerationPrompt (js ''omelette'') [\<lparr>Ingredient.name = js ''egg'', quantity = js ''2''\<rparr>] \<and>
   getIngredientValidationPrompt (js ''tofu'') = getIngredientValidationPrompt (js ''tofu'')"
  using prompt_builders_deterministic
    [of "[\<lparr>Ingredient.name = js ''egg'', quantity = js ''2''\<rparr>]"
        "[\<lparr>Ingredient.name = js ''egg'', quantity = js ''2''\<rparr>]"
        "[js ''vegan'']" "[js ''vegan'']" "js ''omelette''" "js ''omelette''"
        "js ''tofu''" "js ''tofu''"]
  by blast

text \<open>
  C7. The validation prompt for the name \<open>tofu\<close> contains the code units of \<open>tofu\<close> and
  those of \<open>isValid\<close>.
\<close>

theorem validation_prompt_tofu:
  "sublist (js ''tofu'') (getIngredientValidationPrompt (js ''tofu'')) \<and>
   sublist (js ''isValid'') (getIngredientValidationPrompt (js ''tofu''))"
proof
  show "sublist (js ''tofu'') (getIngredientValidationPrompt (js ''tofu''))"
    unfolding getIngredientValidationPrompt_def by (rule sublist_appendI)
  show "sublist (js ''isValid'') (getIngredientValidationPrompt (js ''tofu''))"
    by code_simp
qed

section \<open>Properties of the auth configuration\<close>

text \<open>
  C8. The redirect callback returns the base URL whatever URL was requested. The session
  callback returns the session it was given with the id of the user written into the
  session's user object; the other properties of that object and of the session are as
  they were.
\<close>

theorem auth_callbacks:
  "redirect requested baseUrl = baseUrl \<and>
   id' (user (session sess tok usr)) = id' usr \<and>
   User.more (user (session sess tok usr)) = User.more (user sess) \<and>
   Session.more (session sess tok usr) = Session.more sess"
  by (simp add: redirect_def session_def)

section \<open>Properties of the response logger and of the inference client\<close>

subsection \<open>Auxiliary facts\<close>

lemma saveOpenaiResponses_fst:
  "fst (saveOpenaiResponses env doc) =
     (case await (connectDB env) of None \<Rightarrow> None | Some u \<Rightarrow> await (aiGenerated_create env doc))"
  by (simp add: saveOpenaiResponses_def split: option.splits)

lemma saveOpenaiResponses_attempt: "attempts_log_write (snd (saveOpenaiResponses env doc))"
  by (simp add: saveOpenaiResponses_def attempts_log_write_def split: option.splits)

lemma imagePromises_store:
  "imagePromises (env\<lparr>connectDB := c, aiGenerated_create := f\<rparr>) i rs = imagePromises env i rs"
  by (induction rs arbitrary: i)
     (simp_all add: generateImage_def split: call.splits prod.splits sum.splits)

lemma imagePromises_throws:
  "Throws \<in> set (outcomes env i rs) \<Longrightarrow>
     fst (imagePromises env i rs) = Inl (Error (js ''Failed to generate image''))"
proof (induction rs arbitrary: i)
  case Nil
  then show ?case by simp
next
  case (Cons r rs)
  obtain res evs where ip: "imagePromises env (Suc i) rs = (res, evs)" by force
  show ?case
  proof (cases "openai_images_generate env i (recipe_image_request r)")
    case Throws
    then show ?thesis by (simp add: generateImage_def recipe_image_request_def)
  next
    case (Returns p)
    with Cons.prems have "Throws \<in> set (outcomes env (Suc i) rs)" by simp
    from Cons.IH[OF this] ip have "res = Inl (Error (js ''Failed to generate image''))" by simp
    with ip Returns show ?thesis by (simp add: generateImage_def recipe_image_request_def)
  qed
qed

lemma imagePromises_returns:
  "list_all2 (\<lambda>c p. c = Returns p) (outcomes env i rs) ps \<Longrightarrow>
     imagePromises env i rs = (Inr ps, map (\<lambda>r. Call_images_generate (recipe_image_request r)) rs)"
  by (induction rs arbitrary: i ps)
     (auto simp: generateImage_def recipe_image_request_def list_all2_Cons1)

lemma imagePromises_requests:
  "image_requests (snd (imagePromises env i rs)) =
     map recipe_image_request
       (take (Suc (length (takeWhile (\<lambda>c. c \<noteq> Throws) (outcomes env i rs)))) rs)"
proof (induction rs arbitrary: i)
  case Nil
  show ?case by simp
next
  case (Cons r rs)
  obtain res evs where ip: "imagePromises env (Suc i) rs = (res, evs)" by force
  with Cons.IH[of "Suc i"] have "image_requests evs =
      map recipe_image_request
        (take (Suc (length (takeWhile (\<lambda>c. c \<noteq> Throws) (outcomes env (Suc i) rs)))) rs)"
    by simp
  with ip show ?case
    by (auto simp: generateImage_def recipe_image_request_def split: call.splits sum.splits)
qed

lemma image_requests_append: "image_requests (xs @ ys) = image_requests xs @ image_requests ys"
  by (induction xs rule: image_requests.induct) simp_all

lemma image_requests_save: "image_requests (snd (saveOpenaiResponses env doc)) = []"
  by (simp add: saveOpenaiResponses_def split: option.splits)

lemma Promise_all_fulfilled: "Promise_all (map Fulfilled xs) = Some xs"
  by (induction xs) simp_all

lemma Promise_all_rejected: "Rejected \<in> set ps \<Longrightarrow> Promise_all ps = None"
  by (induction ps rule: Promise_all.induct) auto

lemma imagesWithNames_eq:
  "idx + length images \<le> length rs \<Longrightarrow>
   imagesWithNames rs idx images =
     (if \<forall>im\<in>set images. data im \<noteq> []
      then Inr (map2 image_with_name images (drop idx rs))
      else Inl TypeError)"
proof (induction images arbitrary: idx)
  case Nil
  then show ?case by simp
next
  case (Cons im images)
  then have lt: "idx < length rs" and le: "Suc idx + length images \<le> length rs" by simp_all
  from lt have d: "drop idx rs = rs ! idx # drop (Suc idx) rs" by (simp add: Cons_nth_drop_Suc)
  show ?case
    using Cons.IH[OF le] lt
    by (cases "data im") (auto simp: d image_with_name_def)
qed

lemma length_outcomes: "length (outcomes env i rs) = length rs"
  by (induction rs arbitrary: i) simp_all

lemma generateImages_fulfilled:
  assumes "list_all2 (\<lambda>c im. c = Returns (Fulfilled im)) (outcomes env 0 rs) images"
  shows "generateImages env rs uid =
     (if \<forall>im\<in>set images. data im \<noteq> []
      then (Inr (map2 image_with_name images rs),
            map (\<lambda>r. Call_images_generate (recipe_image_request r)) rs @
            snd (saveOpenaiResponses env
                   \<lparr>userId = uid, AiGenerated.prompt = batch_prompt rs,
                    response = ImageResponses images\<rparr>))
      else (Inl (Error (js ''Failed to generate image'')),
            map (\<lambda>r. Call_images_generate (recipe_image_request r)) rs @
            snd (saveOpenaiResponses env
                   \<lparr>userId = uid, AiGenerated.prompt = batch_prompt rs,
                    response = ImageResponses images\<rparr>) @
            [Console_error (js ''Error generating image:'')]))"
proof -
  from assms have "list_all2 (\<lambda>c p. c = Returns p) (outcomes env 0 rs) (map Fulfilled images)"
    by (simp add: list_all2_map2)
  then have ip: "imagePromises env 0 rs =
      (Inr (map Fulfilled images), map (\<lambda>r. Call_images_generate (recipe_image_request r)) rs)"
    by (rule imagePromises_returns)
  from assms have "length images = length rs"
    using list_all2_lengthD[OF assms] by (simp add: length_outcomes)
  then have "imagesWithNames rs 0 images =
      (if \<forall>im\<in>set images. data im \<noteq> []
       then Inr (map2 image_with_name images rs) else Inl TypeError)"
    using imagesWithNames_eq[of 0 images rs] by simp
  with ip show ?thesis
    by (simp add: generateImages_def Promise_all_fulfilled split: prod.splits)
qed

lemma all_returns:
  "Throws \<notin> set cs \<Longrightarrow> list_all2 (\<lambda>c p. c = Returns p) cs (map (\<lambda>c. case c of Returns p \<Rightarrow> p) cs)"
  by (induction cs) (auto split: call.splits)

lemma generateImages_failed:
  assumes "\<exists>c\<in>set (outcomes env 0 rs). await c = None"
  shows "fst (generateImages env rs uid) = Inl (Error (js ''Failed to generate image''))"
proof (cases "Throws \<in> set (outcomes env 0 rs)")
  case True
  from imagePromises_throws[OF this] show ?thesis
    by (auto simp: generateImages_def split: prod.splits sum.splits)
next
  case False
  let ?ps = "map (\<lambda>c. case c of Returns p \<Rightarrow> p) (outcomes env 0 rs)"
  from imagePromises_returns[OF all_returns[OF False]] have ip:
    "imagePromises env 0 rs = (Inr ?ps, map (\<lambda>r. Call_images_generate (recipe_image_request r)) rs)" .
  from assms False obtain c where "c \<in> set (outcomes env 0 rs)" "c = Returns Rejected"
    by (metis await.elims option.distinct(1))
  then have "Rejected \<in> set ?ps" by force
  then have "Promise_all ?ps = None" by (rule Promise_all_rejected)
  with ip show ?thesis by (simp add: generateImages_def)
qed

lemma all_fulfilled:
  "\<forall>c\<in>set cs. await c \<noteq> None \<Longrightarrow> \<exists>xs. list_all2 (\<lambda>c x. c = Returns (Fulfilled x)) cs xs"
proof (induction cs)
  case Nil
  show ?case by simp
next
  case (Cons c cs)
  then obtain xs where "list_all2 (\<lambda>c x. c = Returns (Fulfilled x)) cs xs" by auto
  moreover from Cons.prems obtain x where "c = Returns (Fulfilled x)"
    by (cases c rule: await.cases) auto
  ultimately have "list_all2 (\<lambda>c x. c = Returns (Fulfilled x)) (c # cs) (x # xs)" by simp
  then show ?case by blast
qed

lemma image_requests_saved:
  "saveOpenaiResponses env doc = (x, evs) \<Longrightarrow> image_requests evs = []"
  using image_requests_save[of env doc] by simp

lemma generateImages_requests:
  "image_requests (snd (generateImages env rs uid)) =
     map recipe_image_request
       (take (Suc (length (takeWhile (\<lambda>c. c \<noteq> Throws) (outcomes env 0 rs)))) rs)"
proof -
  obtain res evs where ip: "imagePromises env 0 rs = (res, evs)" by force
  with imagePromises_requests[of env 0 rs] have "image_requests evs =
     map recipe_image_request
       (take (Suc (length (takeWhile (\<lambda>c. c \<noteq> Throws) (outcomes env 0 rs)))) rs)" by simp
  with ip show ?thesis
    by (auto simp: generateImages_def image_requests_append
             dest: image_requests_saved split: sum.splits option.splits prod.splits)
qed

lemmas json_eval =
  JSON_parse_def trim_def is_trim_space_def js_def is_json_space_def is_digit_def
  valid_number_def valid_fraction_def valid_exponent_def is_number_char_def
  escape_unit_def hex4_def hex_value_def

lemmas world_eval = world_def text_reply_def image_reply_def recipe_of_def egg_def
  recipe_image_request_def generateImage_def generateImages_def saveOpenaiResponses_def

subsection \<open>Recipe generation\<close>

text \<open>
  C6. When the text generation is fulfilled with a response, \<open>generateRecipe\<close> returns
  the generated text of that response as \<open>recipes\<close>, with an \<open>openaiPromptId\<close> that is a
  non-empty string; when the text generation throws or is rejected, \<open>generateRecipe\<close>
  throws the error \<open>Failed to generate recipe\<close> and returns nothing.
\<close>

theorem generateRecipe_result:
  "(await (hf_textGeneration env
       (recipe_request (getRecipeGenerationPrompt ingredientList dietaryPreferences))) = Some resp \<longrightarrow>
      (\<exists>p. fst (generateRecipe env ingredientList dietaryPreferences uid) =
             Inr \<lparr>recipes = Some (generated_text resp), openaiPromptId = p\<rparr> \<and> p \<noteq> [])) \<and>
   (await (hf_textGeneration env
       (recipe_request (getRecipeGenerationPrompt ingredientList dietaryPreferences))) = None \<longrightarrow>
      fst (generateRecipe env ingredientList dietaryPreferences uid) =
        Inl (Error (js ''Failed to generate recipe'')))"
  by (auto simp: generateRecipe_def Let_def or_null_prompt_id_def js_def
           split: prod.splits option.splits)

theorem generateRecipe_result_witness:
  "(\<exists>p. fst (generateRecipe
             (world (text_reply (js ''<json>'')) [] (Returns (Fulfilled ()))
                (Returns (Fulfilled (js ''65f1c0ffee''))) :: jsstring env)
             [egg] [] (js ''u1'')) =
          Inr \<lparr>recipes = Some (js ''<json>''), openaiPromptId = p\<rparr> \<and> p \<noteq> []) \<and>
   fst (generateRecipe
          (world (Returns Rejected) [] (Returns (Fulfilled ()))
             (Returns (Fulfilled (js ''65f1c0ffee''))) :: jsstring env)
          [egg] [] (js ''u1'')) =
     Inl (Error (js ''Failed to generate recipe''))"
  using generateRecipe_result
      [where env = "world (text_reply (js ''<json>'')) [] (Returns (Fulfilled ()))
                (Returns (Fulfilled (js ''65f1c0ffee''))) :: jsstring env"
         and resp = "\<lparr>generated_text = js ''<json>''\<rparr>"
         and ingredientList = "[egg]" and dietaryPreferences = "[]" and uid = "js ''u1''"]
    generateRecipe_result
      [where env = "world (Returns Rejected) [] (Returns (Fulfilled ()))
                (Returns (Fulfilled (js ''65f1c0ffee''))) :: jsstring env"
         and ingredientList = "[egg]" and dietaryPreferences = "[]" and uid = "js ''u1''"]
  by (simp add: world_def text_reply_def)

subsection \<open>Failure of the log write\<close>

text \<open>
  C3. Whatever the document store does, the three generation calls return the same
  primary result and throw in the same cases: replacing the outcome of the connection and
  of \<open>create\<close> by any other changes neither the result of \<open>generateImages\<close>, nor that
  of \<open>validateIngredient\<close>, nor the \<open>recipes\<close> or the error of \<open>generateRecipe\<close>. When
  the connection or the \<open>create\<close> fails, the \<open>openaiPromptId\<close> that \<open>generateRecipe\<close>
  returns is the string \<open>null-prompt-id\<close>.
\<close>

theorem logging_failure_invisible:
  "fst (generateImages (env\<lparr>connectDB := c, aiGenerated_create := f\<rparr>) rs uid) =
     fst (generateImages env rs uid) \<and>
   fst (validateIngredient (env\<lparr>connectDB := c, aiGenerated_create := f\<rparr>) ingredientName uid) =
     fst (validateIngredient env ingredientName uid) \<and>
   map_sum id recipes
     (fst (generateRecipe (env\<lparr>connectDB := c, aiGenerated_create := f\<rparr>) ingredientList
            dietaryPreferences uid)) =
     map_sum id recipes (fst (generateRecipe env ingredientList dietaryPreferences uid)) \<and>
   (await (hf_textGeneration env
       (recipe_request (getRecipeGenerationPrompt ingredientList dietaryPreferences))) = Some resp \<and>
    (await (connectDB env) = None \<or>
     await (aiGenerated_create env
       \<lparr>userId = uid,
        AiGenerated.prompt = getRecipeGenerationPrompt ingredientList dietaryPreferences,
        response = TextResponse resp\<rparr>) = None) \<longrightarrow>
    fst (generateRecipe env ingredientList dietaryPreferences uid) =
      Inr \<lparr>recipes = Some (generated_text resp), openaiPromptId = js ''null-prompt-id''\<rparr>)"
proof (intro conjI impI)
  show "fst (generateImages (env\<lparr>connectDB := c, aiGenerated_create := f\<rparr>) rs uid) =
     fst (generateImages env rs uid)"
    by (simp add: generateImages_def imagePromises_store
             split: prod.splits sum.splits option.splits)
  show "fst (validateIngredient (env\<lparr>connectDB := c, aiGenerated_create := f\<rparr>) ingredientName uid) =
     fst (validateIngredient env ingredientName uid)"
    by (simp add: validateIngredient_def Let_def split: prod.splits option.splits)
  show "map_sum id recipes
     (fst (generateRecipe (env\<lparr>connectDB := c, aiGenerated_create := f\<rparr>) ingredientList
            dietaryPreferences uid)) =
     map_sum id recipes (fst (generateRecipe env ingredientList dietaryPreferences uid))"
    by (simp add: generateRecipe_def Let_def split: prod.splits option.splits)
next
  assume a: "await (hf_textGeneration env
       (recipe_request (getRecipeGenerationPrompt ingredientList dietaryPreferences))) = Some resp \<and>
    (await (connectDB env) = None \<or>
     await (aiGenerated_create env
       \<lparr>userId = uid,
        AiGenerated.prompt = getRecipeGenerationPrompt ingredientList dietaryPreferences,
        response = TextResponse resp\<rparr>) = None)"
  then have "fst (saveOpenaiResponses env
       \<lparr>userId = uid,
        AiGenerated.prompt = getRecipeGenerationPrompt ingredientList dietaryPreferences,
        response = TextResponse resp\<rparr>) = None"
    by (auto simp: saveOpenaiResponses_fst split: option.splits)
  with a show "fst (generateRecipe env ingredientList dietaryPreferences uid) =
      Inr \<lparr>recipes = Some (generated_text resp), openaiPromptId = js ''null-prompt-id''\<rparr>"
    by (auto simp: generateRecipe_def Let_def or_null_prompt_id_def split: prod.splits)
qed

theorem logging_failure_invisible_witness:
  "await (connectDB (world (text_reply (js ''soup'')) [image_reply [js ''http://img/1'']]
            (Returns Rejected) (Returns (Fulfilled (js ''65f1c0ffee''))))) = None \<and>
   fst (generateRecipe
          (world (text_reply (js ''soup'')) [image_reply [js ''http://img/1'']]
            (Returns Rejected) (Returns (Fulfilled (js ''65f1c0ffee''))))
          [egg] [] (js ''u1'')) =
     Inr \<lparr>recipes = Some (js ''soup''), openaiPromptId = js ''null-prompt-id''\<rparr> \<and>
   fst (generateImages
          ((world (text_reply (js ''soup'')) [image_reply [js ''http://img/1'']]
             (Returns Rejected) (Returns (Fulfilled (js ''65f1c0ffee''))))
           \<lparr>connectDB := Returns (Fulfilled ()), aiGenerated_create := aiGenerated_create
               (world (text_reply (js ''soup'')) [image_reply [js ''http://img/1'']]
                 (Returns Rejected) (Returns (Fulfilled (js ''65f1c0ffee''))))\<rparr>)
          [recipe_of (js ''omelette'') [egg]] (js ''u1'')) =
   fst (generateImages
          (world (text_reply (js ''soup'')) [image_reply [js ''http://img/1'']]
             (Returns Rejected) (Returns (Fulfilled (js ''65f1c0ffee''))))
          [recipe_of (js ''omelette'') [egg]] (js ''u1''))"
  using logging_failure_invisible
      [where env = "world (text_reply (js ''soup'')) [image_reply [js ''http://img/1'']]
            (Returns Rejected) (Returns (Fulfilled (js ''65f1c0ffee'')))"
         and resp = "\<lparr>generated_text = js ''soup''\<rparr>"
         and ingredientList = "[egg]" and dietaryPreferences = "[]" and uid = "js ''u1''"
         and rs = "[recipe_of (js ''omelette'') [egg]]"
         and c = "Returns (Fulfilled ())"
         and f = "aiGenerated_create (world (text_reply (js ''soup'')) [image_reply [js ''http://img/1'']]
            (Returns Rejected) (Returns (Fulfilled (js ''65f1c0ffee''))))"]
  by (simp add: world_def text_reply_def)

subsection \<open>Ingredient validation\<close>

text \<open>
  C2. \<open>validateIngredient\<close> returns \<open>null\<close>, without throwing, when the generated text
  is empty and when the trimmed text fails to parse; it returns the parsed value when the
  text is valid JSON of the shape \<open>ValidationResponse\<close>; it throws the error
  \<open>Failed to validate ingredient\<close> when the text generation throws or is rejected.
\<close>

theorem validateIngredient_result:
  "(await (hf_textGeneration env
       (validation_request (getIngredientValidationPrompt ingredientName))) = Some resp \<and>
    (generated_text resp = [] \<or> JSON_parse (trim (generated_text resp)) = None) \<longrightarrow>
      fst (validateIngredient env ingredientName uid) = Inr JNull) \<and>
   (await (hf_textGeneration env
       (validation_request (getIngredientValidationPrompt ingredientName))) = Some resp \<and>
    JSON_parse (generated_text resp) = Some v \<and> is_ValidationResponse v \<longrightarrow>
      fst (validateIngredient env ingredientName uid) = Inr v) \<and>
   (await (hf_textGeneration env
       (validation_request (getIngredientValidationPrompt ingredientName))) = None \<longrightarrow>
      fst (validateIngredient env ingredientName uid) =
        Inl (Error (js ''Failed to validate ingredient'')))"
proof (intro conjI impI)
  assume "await (hf_textGeneration env
       (validation_request (getIngredientValidationPrompt ingredientName))) = Some resp \<and>
    (generated_text resp = [] \<or> JSON_parse (trim (generated_text resp)) = None)"
  then show "fst (validateIngredient env ingredientName uid) = Inr JNull"
    by (auto simp: validateIngredient_def Let_def)
next
  assume a: "await (hf_textGeneration env
       (validation_request (getIngredientValidationPrompt ingredientName))) = Some resp \<and>
    JSON_parse (generated_text resp) = Some v \<and> is_ValidationResponse v"
  then have "generated_text resp \<noteq> []" "JSON_parse (trim (generated_text resp)) = Some v"
    by (auto dest: JSON_parse_nonempty JSON_parse_trim)
  with a show "fst (validateIngredient env ingredientName uid) = Inr v"
    by (auto simp: validateIngredient_def Let_def split: prod.splits)
next
  assume "await (hf_textGeneration env
       (validation_request (getIngredientValidationPrompt ingredientName))) = None"
  then show "fst (validateIngredient env ingredientName uid) =
        Inl (Error (js ''Failed to validate ingredient''))"
    by (simp add: validateIngredient_def Let_def)
qed

theorem validateIngredient_result_witness:
  "fst (validateIngredient
          (world (text_reply []) [] (Returns (Fulfilled ()))
             (Returns (Fulfilled (js ''65f1c0ffee''))) :: jsstring env)
          (js ''tofu'') (js ''u1'')) = Inr JNull \<and>
   JSON_parse (trim (js ''Sure! Here is the JSON you asked for'')) = None \<and>
   fst (validateIngredient
          (world (text_reply (js ''Sure! Here is the JSON you asked for'')) [] (Returns (Fulfilled ()))
             (Returns (Fulfilled (js ''65f1c0ffee''))) :: jsstring env)
          (js ''tofu'') (js ''u1'')) = Inr JNull \<and>
   is_ValidationResponse
     (JObject [(js ''isValid'', JBool True),
               (js ''possibleVariations'', JArray [JString (js ''tempeh''), JString (js ''seitan'')])]) \<and>
   fst (validateIngredient
          (world (text_reply
                    (js '' {\"isValid\": true, \"possibleVariations\": [\"tempeh\", \"seitan\"]}\<newline>''))
             [] (Returns (Fulfilled ())) (Returns (Fulfilled (js ''65f1c0ffee''))) :: jsstring env)
          (js ''tofu'') (js ''u1'')) =
     Inr (JObject [(js ''isValid'', JBool True),
                   (js ''possibleVariations'', JArray [JString (js ''tempeh''), JString (js ''seitan'')])]) \<and>
   fst (validateIngredient
          (world Throws [] (Returns (Fulfilled ()))
             (Returns (Fulfilled (js ''65f1c0ffee''))) :: jsstring env)
          (js ''tofu'') (js ''u1'')) = Inl (Error (js ''Failed to validate ingredient''))"
proof -
  let ?no = "js ''Sure! Here is the JSON you asked for''"
  let ?ok = "js '' {\"isValid\": true, \"possibleVariations\": [\"tempeh\", \"seitan\"]}\<newline>''"
  let ?v = "JObject [(js ''isValid'', JBool True),
               (js ''possibleVariations'', JArray [JString (js ''tempeh''), JString (js ''seitan'')])]"
  let ?W = "\<lambda>t. world t [] (Returns (Fulfilled ()))
             (Returns (Fulfilled (js ''65f1c0ffee''))) :: jsstring env"
  have a: "JSON_parse (trim ?no) = None"
    and a': "JSON_parse (trim (generated_text \<lparr>generated_text = ?no\<rparr>)) = None"
    by (simp_all add: json_eval)
  have b: "JSON_parse (generated_text \<lparr>generated_text = ?ok\<rparr>) = Some ?v"
    by (simp add: json_eval)
  have c: "is_ValidationResponse ?v"
    by (simp add: is_ValidationResponse_def get_property_def js_def)
  have h: "\<And>s req. await (hf_textGeneration (?W (text_reply s)) req) = Some \<lparr>generated_text = s\<rparr>"
    and f: "\<And>req. await (hf_textGeneration (?W Throws) req) = None"
    by (simp_all add: world_def text_reply_def)
  have e: "generated_text \<lparr>generated_text = ([] :: jsstring)\<rparr> = []" by simp
  from validateIngredient_result
        [where env = "?W (text_reply [])" and resp = "\<lparr>generated_text = []\<rparr>"
           and ingredientName = "js ''tofu''" and uid = "js ''u1''"] h[of "[]"] e
  have 1: "fst (validateIngredient (?W (text_reply [])) (js ''tofu'') (js ''u1'')) = Inr JNull"
    by blast
  from validateIngredient_result
        [where env = "?W (text_reply ?no)" and resp = "\<lparr>generated_text = ?no\<rparr>"
           and ingredientName = "js ''tofu''" and uid = "js ''u1''"] h[of ?no] a'
  have 2: "fst (validateIngredient (?W (text_reply ?no)) (js ''tofu'') (js ''u1'')) = Inr JNull"
    by blast
  from validateIngredient_result
        [where env = "?W (text_reply ?ok)" and resp = "\<lparr>generated_text = ?ok\<rparr>" and v = ?v
           and ingredientName = "js ''tofu''" and uid = "js ''u1''"] h[of ?ok] b c
  have 3: "fst (validateIngredient (?W (text_reply ?ok)) (js ''tofu'') (js ''u1'')) = Inr ?v"
    by blast
  from validateIngredient_result
        [where env = "?W Throws" and ingredientName = "js ''tofu''" and uid = "js ''u1''"] f
  have 4: "fst (validateIngredient (?W Throws) (js ''tofu'') (js ''u1'')) =
      Inl (Error (js ''Failed to validate ingredient''))"
    by blast
  show ?thesis by (simp only: 1 2 3 4 a c simp_thms)
qed

text \<open>
  C9. The parsed value is returned as it is, whatever its shape: when the generated text
  is \<open>42\<close>, or \<open>{}\<close>, the text is valid JSON, and \<open>validateIngredient\<close> returns the
  number, or the empty object, which is not \<open>null\<close> and is not of the shape
  \<open>ValidationResponse\<close>.
\<close>

theorem validateIngredient_unvalidated:
  "(await (hf_textGeneration env
       (validation_request (getIngredientValidationPrompt ingredientName))) =
      Some \<lparr>generated_text = js ''42''\<rparr> \<longrightarrow>
    JSON_parse (js ''42'') = Some (JNumber (js ''42'')) \<and>
    fst (validateIngredient env ingredientName uid) = Inr (JNumber (js ''42'')) \<and>
    JNumber (js ''42'') \<noteq> JNull \<and> \<not> is_ValidationResponse (JNumber (js ''42''))) \<and>
   (await (hf_textGeneration env
       (validation_request (getIngredientValidationPrompt ingredientName))) =
      Some \<lparr>generated_text = js ''{}''\<rparr> \<longrightarrow>
    JSON_parse (js ''{}'') = Some (JObject []) \<and>
    fst (validateIngredient env ingredientName uid) = Inr (JObject []) \<and>
    JObject [] \<noteq> JNull \<and> \<not> is_ValidationResponse (JObject []))"
proof -
  have p42: "JSON_parse (js ''42'') = Some (JNumber (js ''42''))"
    and t42: "trim (js ''42'') = js ''42''" and n42: "js ''42'' \<noteq> []"
    by (simp_all add: json_eval)
  have pb: "JSON_parse (js ''{}'') = Some (JObject [])"
    and tb: "trim (js ''{}'') = js ''{}''" and nb: "js ''{}'' \<noteq> []"
    by (simp_all add: json_eval)
  have s: "\<not> is_ValidationResponse (JNumber (js ''42''))" "\<not> is_ValidationResponse (JObject [])"
    by (simp_all add: is_ValidationResponse_def get_property_def)
  show ?thesis
    using p42 t42 n42 pb tb nb s
    by (auto simp: validateIngredient_def Let_def split: prod.splits)
qed

theorem validateIngredient_unvalidated_witness:
  "fst (validateIngredient
          (world (text_reply (js ''42'')) [] (Returns (Fulfilled ()))
             (Returns (Fulfilled (js ''65f1c0ffee''))) :: jsstring env)
          (js ''tofu'') (js ''u1'')) = Inr (JNumber (js ''42'')) \<and>
   \<not> is_ValidationResponse (JNumber (js ''42'')) \<and>
   fst (validateIngredient
          (world (text_reply (js ''{}'')) [] (Returns (Fulfilled ()))
             (Returns (Fulfilled (js ''65f1c0ffee''))) :: jsstring env)
          (js ''tofu'') (js ''u1'')) = Inr (JObject []) \<and>
   \<not> is_ValidationResponse (JObject [])"
  using validateIngredient_unvalidated
      [where env = "world (text_reply (js ''42'')) [] (Returns (Fulfilled ()))
             (Returns (Fulfilled (js ''65f1c0ffee''))) :: jsstring env"
         and ingredientName = "js ''tofu''" and uid = "js ''u1''"]
    validateIngredient_unvalidated
      [where env = "world (text_reply (js ''{}'')) [] (Returns (Fulfilled ()))
             (Returns (Fulfilled (js ''65f1c0ffee''))) :: jsstring env"
         and ingredientName = "js ''tofu''" and uid = "js ''u1''"]
  by (simp add: world_def text_reply_def)

subsection \<open>Log writes\<close>

text \<open>
  C4, as stated, fails: when the text generation of \<open>validateIngredient\<close> is fulfilled
  with an empty text, or with a text that is not JSON, the run makes no call to the
  document store.
\<close>

theorem unparsed_reply_not_logged:
  "await (hf_textGeneration
      (world (text_reply []) [] (Returns (Fulfilled ()))
         (Returns (Fulfilled (js ''65f1c0ffee''))) :: jsstring env)
      (validation_request (getIngredientValidationPrompt (js ''tofu'')))) =
     Some \<lparr>generated_text = []\<rparr> \<and>
   \<not> attempts_log_write (snd (validateIngredient
      (world (text_reply []) [] (Returns (Fulfilled ()))
         (Returns (Fulfilled (js ''65f1c0ffee''))) :: jsstring env)
      (js ''tofu'') (js ''u1''))) \<and>
   await (hf_textGeneration
      (world (text_reply (js ''Sure! Here is the JSON you asked for'')) [] (Returns (Fulfilled ()))
         (Returns (Fulfilled (js ''65f1c0ffee''))) :: jsstring env)
      (validation_request (getIngredientValidationPrompt (js ''tofu'')))) =
     Some \<lparr>generated_text = js ''Sure! Here is the JSON you asked for''\<rparr> \<and>
   \<not> attempts_log_write (snd (validateIngredient
      (world (text_reply (js ''Sure! Here is the JSON you asked for'')) [] (Returns (Fulfilled ()))
         (Returns (Fulfilled (js ''65f1c0ffee''))) :: jsstring env)
      (js ''tofu'') (js ''u1'')))"
proof -
  have "JSON_parse (trim (js ''Sure! Here is the JSON you asked for'')) = None"
    and "js ''Sure! Here is the JSON you asked for'' \<noteq> []"
    by (simp_all add: json_eval)
  then show ?thesis
    by (simp add: world_def text_reply_def validateIngredient_def attempts_log_write_def Let_def)
qed

text \<open>
  C4, amended. \<open>generateRecipe\<close>, when its text generation is fulfilled, and
  \<open>generateImages\<close>, when all its requests are fulfilled, go on to
  \<open>saveOpenaiResponses\<close> with the prompt and the response (for a batch of images: with
  a summary of the recipe names and the list of responses), and so attempt a log write.
  \<open>validateIngredient\<close>, when its text generation is fulfilled, does so when the text is
  not empty and its trimmed form parses, after the two lines it prints; when the text is
  empty or fails to parse, it attempts no log write.
\<close>

theorem log_write_attempts:
  "(await (hf_textGeneration env
       (recipe_request (getRecipeGenerationPrompt ingredientList dietaryPreferences))) = Some resp \<longrightarrow>
      snd (generateRecipe env ingredientList dietaryPreferences uid) =
        Call_textGeneration
          (recipe_request (getRecipeGenerationPrompt ingredientList dietaryPreferences)) #
        snd (saveOpenaiResponses env
               \<lparr>userId = uid,
                AiGenerated.prompt = getRecipeGenerationPrompt ingredientList dietaryPreferences,
                response = TextResponse resp\<rparr>) \<and>
      attempts_log_write (snd (generateRecipe env ingredientList dietaryPreferences uid))) \<and>
   (list_all2 (\<lambda>c im. c = Returns (Fulfilled im)) (outcomes env 0 rs) images \<longrightarrow>
      snd (generateImages env rs uid) =
        map (\<lambda>r. Call_images_generate (recipe_image_request r)) rs @
        snd (saveOpenaiResponses env
               \<lparr>userId = uid, AiGenerated.prompt = batch_prompt rs,
                response = ImageResponses images\<rparr>) @
        (if \<forall>im\<in>set images. data im \<noteq> [] then []
         else [Console_error (js ''Error generating image:'')]) \<and>
      attempts_log_write (snd (generateImages env rs uid))) \<and>
   (await (hf_textGeneration env
       (validation_request (getIngredientValidationPrompt ingredientName))) = Some vresp \<and>
    generated_text vresp \<noteq> [] \<and> JSON_parse (trim (generated_text vresp)) \<noteq> None \<longrightarrow>
      snd (validateIngredient env ingredientName uid) =
        [Call_textGeneration (validation_request (getIngredientValidationPrompt ingredientName)),
         Console_log (js ''Raw response from Hugging Face:''),
         Console_log (js ''Validation Text:'')] @
        snd (saveOpenaiResponses env
               \<lparr>userId = uid,
                AiGenerated.prompt = getIngredientValidationPrompt ingredientName,
                response = TextResponse vresp\<rparr>) \<and>
      attempts_log_write (snd (validateIngredient env ingredientName uid))) \<and>
   (await (hf_textGeneration env
       (validation_request (getIngredientValidationPrompt ingredientName))) = Some vresp \<and>
    (generated_text vresp = [] \<or> JSON_parse (trim (generated_text vresp)) = None) \<longrightarrow>
      \<not> attempts_log_write (snd (validateIngredient env ingredientName uid)))"
proof (intro conjI impI)
  have att: "\<And>xs doc ys. attempts_log_write (xs @ snd (saveOpenaiResponses env doc) @ ys)"
    using saveOpenaiResponses_attempt by (auto simp: attempts_log_write_def)
  {
    assume "await (hf_textGeneration env
       (recipe_request (getRecipeGenerationPrompt ingredientList dietaryPreferences))) = Some resp"
    then show g: "snd (generateRecipe env ingredientList dietaryPreferences uid) =
        Call_textGeneration
          (recipe_request (getRecipeGenerationPrompt ingredientList dietaryPreferences)) #
        snd (saveOpenaiResponses env
               \<lparr>userId = uid,
                AiGenerated.prompt = getRecipeGenerationPrompt ingredientList dietaryPreferences,
                response = TextResponse resp\<rparr>)"
      by (simp add: generateRecipe_def Let_def split: prod.splits)
    show "attempts_log_write (snd (generateRecipe env ingredientList dietaryPreferences uid))"
      unfolding g
      using saveOpenaiResponses_attempt[of env "\<lparr>userId = uid,
                AiGenerated.prompt = getRecipeGenerationPrompt ingredientList dietaryPreferences,
                response = TextResponse resp\<rparr>"]
      by (simp add: attempts_log_write_def)
  }
  {
    assume "list_all2 (\<lambda>c im. c = Returns (Fulfilled im)) (outcomes env 0 rs) images"
    from generateImages_fulfilled[OF this, of uid]
    show g: "snd (generateImages env rs uid) =
        map (\<lambda>r. Call_images_generate (recipe_image_request r)) rs @
        snd (saveOpenaiResponses env
               \<lparr>userId = uid, AiGenerated.prompt = batch_prompt rs,
                response = ImageResponses images\<rparr>) @
        (if \<forall>im\<in>set images. data im \<noteq> [] then []
         else [Console_error (js ''Error generating image:'')])"
      by simp
    show "attempts_log_write (snd (generateImages env rs uid))"
      unfolding g by (rule att)
  }
  {
    assume "await (hf_textGeneration env
       (validation_request (getIngredientValidationPrompt ingredientName))) = Some vresp \<and>
      generated_text vresp \<noteq> [] \<and> JSON_parse (trim (generated_text vresp)) \<noteq> None"
    then show g: "snd (validateIngredient env ingredientName uid) =
        [Call_textGeneration (validation_request (getIngredientValidationPrompt ingredientName)),
         Console_log (js ''Raw response from Hugging Face:''),
         Console_log (js ''Validation Text:'')] @
        snd (saveOpenaiResponses env
               \<lparr>userId = uid,
                AiGenerated.prompt = getIngredientValidationPrompt ingredientName,
                response = TextResponse vresp\<rparr>)"
      by (auto simp: validateIngredient_def Let_def split: prod.splits)
    show "attempts_log_write (snd (validateIngredient env ingredientName uid))"
      unfolding g
      using saveOpenaiResponses_attempt[of env "\<lparr>userId = uid,
                AiGenerated.prompt = getIngredientValidationPrompt ingredientName,
                response = TextResponse vresp\<rparr>"]
      by (simp add: attempts_log_write_def)
  }
  {
    assume "await (hf_textGeneration env
       (validation_request (getIngredientValidationPrompt ingredientName))) = Some vresp \<and>
      (generated_text vresp = [] \<or> JSON_parse (trim (generated_text vresp)) = None)"
    then show "\<not> attempts_log_write (snd (validateIngredient env ingredientName uid))"
      by (auto simp: validateIngredient_def Let_def attempts_log_write_def)
  }
qed

theorem log_write_attempts_witness:
  "attempts_log_write (snd (generateRecipe
      (world (text_reply (js ''{\"isValid\": true, \"possibleVariations\": []}''))
         [image_reply [js ''http://img/1'']] (Returns (Fulfilled ()))
         (Returns (Fulfilled (js ''65f1c0ffee''))))
      [egg] [] (js ''u1''))) \<and>
   attempts_log_write (snd (generateImages
      (world (text_reply (js ''{\"isValid\": true, \"possibleVariations\": []}''))
         [image_reply [js ''http://img/1'']] (Returns (Fulfilled ()))
         (Returns (Fulfilled (js ''65f1c0ffee''))))
      [recipe_of (js ''omelette'') [egg]] (js ''u1''))) \<and>
   attempts_log_write (snd (validateIngredient
      (world (text_reply (js ''{\"isValid\": true, \"possibleVariations\": []}''))
         [image_reply [js ''http://img/1'']] (Returns (Fulfilled ()))
         (Returns (Fulfilled (js ''65f1c0ffee''))))
      (js ''tofu'') (js ''u1''))) \<and>
   \<not> attempts_log_write (snd (validateIngredient
      (world (text_reply (js ''tofu is fine'')) [image_reply [js ''http://img/1'']]
         (Returns (Fulfilled ())) (Returns (Fulfilled (js ''65f1c0ffee''))))
      (js ''tofu'') (js ''u1'')))"
proof -
  let ?ok = "js ''{\"isValid\": true, \"possibleVariations\": []}''"
  let ?W = "world (text_reply ?ok) [image_reply [js ''http://img/1'']] (Returns (Fulfilled ()))
         (Returns (Fulfilled (js ''65f1c0ffee'')))"
  let ?V = "world (text_reply (js ''tofu is fine'')) [image_reply [js ''http://img/1'']]
         (Returns (Fulfilled ())) (Returns (Fulfilled (js ''65f1c0ffee'')))"
  have a: "JSON_parse (trim (generated_text \<lparr>generated_text = ?ok\<rparr>)) \<noteq> None"
    and b: "generated_text \<lparr>generated_text = ?ok\<rparr> \<noteq> []"
    and c: "JSON_parse (trim (generated_text \<lparr>generated_text = js ''tofu is fine''\<rparr>)) = None"
    by (simp_all add: json_eval)
  have hW: "\<And>req. await (hf_textGeneration ?W req) = Some \<lparr>generated_text = ?ok\<rparr>"
    and hV: "\<And>req. await (hf_textGeneration ?V req) = Some \<lparr>generated_text = js ''tofu is fine''\<rparr>"
    by (simp_all add: world_def text_reply_def)
  have im: "list_all2 (\<lambda>c im. c = Returns (Fulfilled im))
      (outcomes ?W 0 [recipe_of (js ''omelette'') [egg]]) [\<lparr>data = [\<lparr>url = js ''http://img/1''\<rparr>]\<rparr>]"
    by (simp add: world_def image_reply_def)
  note T = log_write_attempts
        [where env = ?W and resp = "\<lparr>generated_text = ?ok\<rparr>"
           and vresp = "\<lparr>generated_text = ?ok\<rparr>"
           and ingredientList = "[egg]" and dietaryPreferences = "[]" and uid = "js ''u1''"
           and ingredientName = "js ''tofu''"
           and rs = "[recipe_of (js ''omelette'') [egg]]"
           and images = "[\<lparr>data = [\<lparr>url = js ''http://img/1''\<rparr>]\<rparr>]"]
  note S = log_write_attempts
        [where env = ?V and vresp = "\<lparr>generated_text = js ''tofu is fine''\<rparr>"
           and ingredientName = "js ''tofu''" and uid = "js ''u1''"]
  from T hW have 1: "attempts_log_write (snd (generateRecipe ?W [egg] [] (js ''u1'')))" by blast
  from T im have 2: "attempts_log_write (snd (generateImages ?W [recipe_of (js ''omelette'') [egg]] (js ''u1'')))"
    by blast
  from T hW a b have 3: "attempts_log_write (snd (validateIngredient ?W (js ''tofu'') (js ''u1'')))"
    by blast
  from S hV c have 4: "\<not> attempts_log_write (snd (validateIngredient ?V (js ''tofu'') (js ''u1'')))"
    by blast
  show ?thesis by (simp only: 1 2 3 4 simp_thms)
qed

subsection \<open>Image generation\<close>

text \<open>
  C1, as stated, fails: a batch of one recipe whose request is fulfilled with a response
  that carries an empty \<open>data\<close> array makes \<open>generateImages\<close> throw, although every
  request has succeeded; and in a batch of two recipes, when the call to the image client
  throws at once (the case the \<open>try\<close> block of \<open>generateImage\<close> is written for), the
  loop over the recipes ends there and the second request is never issued.
\<close>

theorem fulfilled_batch_without_pairs:
  "outcomes (world (text_reply []) [image_reply []] (Returns (Fulfilled ()))
              (Returns (Fulfilled (js ''65f1c0ffee''))) :: jsstring env) 0
     [recipe_of (js ''omelette'') [egg]] = [Returns (Fulfilled \<lparr>data = []\<rparr>)] \<and>
   fst (generateImages
          (world (text_reply []) [image_reply []] (Returns (Fulfilled ()))
             (Returns (Fulfilled (js ''65f1c0ffee''))) :: jsstring env)
          [recipe_of (js ''omelette'') [egg]] (js ''u1'')) =
     Inl (Error (js ''Failed to generate image'')) \<and>
   outcomes (world (text_reply []) [] (Returns (Fulfilled ()))
              (Returns (Fulfilled (js ''65f1c0ffee''))) :: jsstring env) 0
     [recipe_of (js ''omelette'') [egg], recipe_of (js ''frittata'') [egg]] = [Throws, Throws] \<and>
   image_requests (snd (generateImages
          (world (text_reply []) [] (Returns (Fulfilled ()))
             (Returns (Fulfilled (js ''65f1c0ffee''))) :: jsstring env)
          [recipe_of (js ''omelette'') [egg], recipe_of (js ''frittata'') [egg]] (js ''u1''))) =
     [recipe_image_request (recipe_of (js ''omelette'') [egg])]"
  by (simp add: world_eval)

text \<open>
  C1, amended. \<open>generateImages\<close> issues its image requests in the order of the recipes,
  one per recipe, each built from the name and the ingredients of its recipe: as many as
  there are recipes when no call to the image client throws, and otherwise up to and
  including the first call that throws. When every request is fulfilled with a response
  whose \<open>data\<close> array is not empty, it returns as many pairs as there are recipes, the
  pair at each position with the \<open>url\<close> of the first image of the response at that
  position and the name of the recipe at that position. When a request throws or is
  rejected, it throws the error \<open>Failed to generate image\<close> and returns nothing.
\<close>

theorem generateImages_batch:
  "(Throws \<notin> set (outcomes env 0 rs) \<longrightarrow>
      image_requests (snd (generateImages env rs uid)) = map recipe_image_request rs) \<and>
   image_requests (snd (generateImages env rs uid)) =
     map recipe_image_request
       (take (Suc (length (takeWhile (\<lambda>c. c \<noteq> Throws) (outcomes env 0 rs)))) rs) \<and>
   (list_all2 (\<lambda>c im. c = Returns (Fulfilled im)) (outcomes env 0 rs) images \<and>
    (\<forall>im\<in>set images. data im \<noteq> []) \<longrightarrow>
      fst (generateImages env rs uid) = Inr (map2 image_with_name images rs) \<and>
      length (map2 image_with_name images rs) = length rs \<and>
      map ImageWithName.name (map2 image_with_name images rs) = map Recipe.name rs \<and>
      map imgLink (map2 image_with_name images rs) = map (\<lambda>im. url (hd (data im))) images) \<and>
   ((\<exists>c\<in>set (outcomes env 0 rs). await c = None) \<longrightarrow>
      fst (generateImages env rs uid) = Inl (Error (js ''Failed to generate image'')))"
proof (intro conjI impI)
  show req: "image_requests (snd (generateImages env rs uid)) =
     map recipe_image_request
       (take (Suc (length (takeWhile (\<lambda>c. c \<noteq> Throws) (outcomes env 0 rs)))) rs)"
    by (rule generateImages_requests)
  assume "Throws \<notin> set (outcomes env 0 rs)"
  then have "takeWhile (\<lambda>c. c \<noteq> Throws) (outcomes env 0 rs) = outcomes env 0 rs"
    by (simp add: takeWhile_eq_all_conv) metis
  with req show "image_requests (snd (generateImages env rs uid)) = map recipe_image_request rs"
    by (simp add: length_outcomes)
next
  assume a: "list_all2 (\<lambda>c im. c = Returns (Fulfilled im)) (outcomes env 0 rs) images \<and>
    (\<forall>im\<in>set images. data im \<noteq> [])"
  then show "fst (generateImages env rs uid) = Inr (map2 image_with_name images rs)"
    using generateImages_fulfilled[of env rs images uid] by simp
  from a[THEN conjunct1, THEN list_all2_lengthD] have len: "length images = length rs"
    by (simp add: length_outcomes)
  then show "length (map2 image_with_name images rs) = length rs" by simp
  from len show "map ImageWithName.name (map2 image_with_name images rs) = map Recipe.name rs"
    by (induction images rs rule: list_induct2) (simp_all add: image_with_name_def)
  from len show "map imgLink (map2 image_with_name images rs) =
      map (\<lambda>im. url (hd (data im))) images"
    by (induction images rs rule: list_induct2) (simp_all add: image_with_name_def)
next
  assume "\<exists>c\<in>set (outcomes env 0 rs). await c = None"
  then show "fst (generateImages env rs uid) = Inl (Error (js ''Failed to generate image''))"
    by (rule generateImages_failed)
qed

theorem generateImages_batch_witness:
  "image_requests (snd (generateImages
      (world (text_reply []) [image_reply [js ''http://img/1''], image_reply [js ''http://img/2'']]
         (Returns (Fulfilled ())) (Returns (Fulfilled (js ''65f1c0ffee''))))
      [recipe_of (js ''omelette'') [egg], recipe_of (js ''frittata'') [egg]] (js ''u1''))) =
     [recipe_image_request (recipe_of (js ''omelette'') [egg]),
      recipe_image_request (recipe_of (js ''frittata'') [egg])] \<and>
   fst (generateImages
      (world (text_reply []) [image_reply [js ''http://img/1''], image_reply [js ''http://img/2'']]
         (Returns (Fulfilled ())) (Returns (Fulfilled (js ''65f1c0ffee''))))
      [recipe_of (js ''omelette'') [egg], recipe_of (js ''frittata'') [egg]] (js ''u1'')) =
     Inr [\<lparr>imgLink = js ''http://img/1'', name = js ''omelette''\<rparr>,
          \<lparr>imgLink = js ''http://img/2'', name = js ''frittata''\<rparr>] \<and>
   fst (generateImages
      (world (text_reply []) [image_reply [js ''http://img/1''], Returns Rejected]
         (Returns (Fulfilled ())) (Returns (Fulfilled (js ''65f1c0ffee''))))
      [recipe_of (js ''omelette'') [egg], recipe_of (js ''frittata'') [egg]] (js ''u1'')) =
     Inl (Error (js ''Failed to generate image''))"
  using generateImages_batch
      [where env = "world (text_reply []) [image_reply [js ''http://img/1''], image_reply [js ''http://img/2'']]
         (Returns (Fulfilled ())) (Returns (Fulfilled (js ''65f1c0ffee'')))"
         and rs = "[recipe_of (js ''omelette'') [egg], recipe_of (js ''frittata'') [egg]]"
         and uid = "js ''u1''"
         and images = "[\<lparr>data = [\<lparr>url = js ''http://img/1''\<rparr>]\<rparr>, \<lparr>data = [\<lparr>url = js ''http://img/2''\<rparr>]\<rparr>]"]
    generateImages_batch
      [where env = "world (text_reply []) [image_reply [js ''http://img/1''], Returns Rejected]
         (Returns (Fulfilled ())) (Returns (Fulfilled (js ''65f1c0ffee'')))"
         and rs = "[recipe_of (js ''omelette'') [egg], recipe_of (js ''frittata'') [egg]]"
         and uid = "js ''u1''"
         and images = "[]"]
  by (simp add: world_def text_reply_def image_reply_def recipe_of_def egg_def
        recipe_image_request_def image_with_name_def)

text \<open>
  C10, as stated, fails: in a batch of two recipes whose requests are both fulfilled, the
  second with an empty \<open>data\<close> array, reading \<open>data[0].url\<close> throws, and
  \<open>generateImages\<close> throws the error \<open>Failed to generate image\<close> instead of
  returning a pair without link.
\<close>

theorem empty_data_raises:
  "outcomes (world (text_reply []) [image_reply [js ''http://img/1''], image_reply []]
              (Returns (Fulfilled ())) (Returns (Fulfilled (js ''65f1c0ffee'')))) 0
     [recipe_of (js ''omelette'') [egg], recipe_of (js ''frittata'') [egg]] =
     [Returns (Fulfilled \<lparr>data = [\<lparr>url = js ''http://img/1''\<rparr>]\<rparr>),
      Returns (Fulfilled \<lparr>data = []\<rparr>)] \<and>
   fst (generateImages
          (world (text_reply []) [image_reply [js ''http://img/1''], image_reply []]
             (Returns (Fulfilled ())) (Returns (Fulfilled (js ''65f1c0ffee''))))
          [recipe_of (js ''omelette'') [egg], recipe_of (js ''frittata'') [egg]] (js ''u1'')) =
     Inl (Error (js ''Failed to generate image''))"
  by (simp add: world_eval)

text \<open>
  C10, amended. \<open>generateImages\<close> reads \<open>data[0].url\<close> of every response without
  checking that \<open>data\<close> is not empty. When all requests of a batch are fulfilled and some
  response carries an empty \<open>data\<close> array, the call throws the error
  \<open>Failed to generate image\<close>; when every response carries a \<open>data\<close> array that is not
  empty, the call returns, for every recipe, the \<open>url\<close> of the first image of its
  response. The call returns pairs only in that case: when all requests are fulfilled
  with responses whose \<open>data\<close> array is not empty.
\<close>

theorem generateImages_data:
  "(list_all2 (\<lambda>c im. c = Returns (Fulfilled im)) (outcomes env 0 rs) images \<and>
    (\<exists>im\<in>set images. data im = []) \<longrightarrow>
      fst (generateImages env rs uid) = Inl (Error (js ''Failed to generate image''))) \<and>
   (list_all2 (\<lambda>c im. c = Returns (Fulfilled im)) (outcomes env 0 rs) images \<and>
    (\<forall>im\<in>set images. data im \<noteq> []) \<longrightarrow>
      fst (generateImages env rs uid) = Inr (map2 image_with_name images rs)) \<and>
   ((\<exists>pairs. fst (generateImages env rs uid) = Inr pairs) \<longleftrightarrow>
    (\<exists>images. list_all2 (\<lambda>c im. c = Returns (Fulfilled im)) (outcomes env 0 rs) images \<and>
              (\<forall>im\<in>set images. data im \<noteq> [])))"
proof (intro conjI impI iffI)
  assume "list_all2 (\<lambda>c im. c = Returns (Fulfilled im)) (outcomes env 0 rs) images \<and>
    (\<exists>im\<in>set images. data im = [])"
  then show "fst (generateImages env rs uid) = Inl (Error (js ''Failed to generate image''))"
    using generateImages_fulfilled[of env rs images uid] by auto
next
  assume "list_all2 (\<lambda>c im. c = Returns (Fulfilled im)) (outcomes env 0 rs) images \<and>
    (\<forall>im\<in>set images. data im \<noteq> [])"
  then show "fst (generateImages env rs uid) = Inr (map2 image_with_name images rs)"
    using generateImages_fulfilled[of env rs images uid] by simp
next
  assume r: "\<exists>pairs. fst (generateImages env rs uid) = Inr pairs"
  have "\<forall>c\<in>set (outcomes env 0 rs). await c \<noteq> None"
  proof (rule ccontr)
    assume "\<not> (\<forall>c\<in>set (outcomes env 0 rs). await c \<noteq> None)"
    then have "\<exists>c\<in>set (outcomes env 0 rs). await c = None" by simp
    from generateImages_failed[OF this] r show False by simp
  qed
  from all_fulfilled[OF this] obtain images where
    im: "list_all2 (\<lambda>c im. c = Returns (Fulfilled im)) (outcomes env 0 rs) images" by blast
  with r have "\<forall>im\<in>set images. data im \<noteq> []"
    using generateImages_fulfilled[of env rs images uid] by (auto split: if_splits)
  with im show "\<exists>images. list_all2 (\<lambda>c im. c = Returns (Fulfilled im)) (outcomes env 0 rs) images \<and>
              (\<forall>im\<in>set images. data im \<noteq> [])" by blast
next
  assume "\<exists>images. list_all2 (\<lambda>c im. c = Returns (Fulfilled im)) (outcomes env 0 rs) images \<and>
              (\<forall>im\<in>set images. data im \<noteq> [])"
  then obtain images where
    "list_all2 (\<lambda>c im. c = Returns (Fulfilled im)) (outcomes env 0 rs) images"
    "\<forall>im\<in>set images. data im \<noteq> []" by blast
  then show "\<exists>pairs. fst (generateImages env rs uid) = Inr pairs"
    using generateImages_fulfilled[of env rs images uid] by simp
qed

theorem generateImages_data_witness:
  "fst (generateImages
      (world (text_reply []) [image_reply [js ''http://img/1''], image_reply []]
         (Returns (Fulfilled ())) (Returns (Fulfilled (js ''65f1c0ffee''))))
      [recipe_of (js ''omelette'') [egg], recipe_of (js ''frittata'') [egg]] (js ''u2'')) =
     Inl (Error (js ''Failed to generate image'')) \<and>
   fst (generateImages
      (world (text_reply []) [image_reply [js ''http://img/1''], image_reply [js ''http://img/2'', js ''http://img/3'']]
         (Returns (Fulfilled ())) (Returns (Fulfilled (js ''65f1c0ffee''))))
      [recipe_of (js ''omelette'') [egg], recipe_of (js ''frittata'') [egg]] (js ''u2'')) =
     Inr [\<lparr>imgLink = js ''http://img/1'', name = js ''omelette''\<rparr>,
          \<lparr>imgLink = js ''http://img/2'', name = js ''frittata''\<rparr>]"
  using generateImages_data
      [where env = "world (text_reply []) [image_reply [js ''http://img/1''], image_reply []]
         (Returns (Fulfilled ())) (Returns (Fulfilled (js ''65f1c0ffee'')))"
         and rs = "[recipe_of (js ''omelette'') [egg], recipe_of (js ''frittata'') [egg]]"
         and uid = "js ''u2''"
         and images = "[\<lparr>data = [\<lparr>url = js ''http://img/1''\<rparr>]\<rparr>, \<lparr>data = []\<rparr>]"]
    generateImages_data
      [where env = "world (text_reply []) [image_reply [js ''http://img/1''], image_reply [js ''http://img/2'', js ''http://img/3'']]
         (Returns (Fulfilled ())) (Returns (Fulfilled (js ''65f1c0ffee'')))"
         and rs = "[recipe_of (js ''omelette'') [egg], recipe_of (js ''frittata'') [egg]]"
         and uid = "js ''u2''"
         and images = "[\<lparr>data = [\<lparr>url = js ''http://img/1''\<rparr>]\<rparr>, \<lparr>data = [\<lparr>url = js ''http://img/2''\<rparr>, \<lparr>url = js ''http://img/3''\<rparr>]\<rparr>]"]
  by (simp add: world_def text_reply_def image_reply_def recipe_of_def egg_def
        recipe_image_request_def image_with_name_def)

end
